theory Spec2Isabelle
  imports Main "HOL-Library.Word" "HOL-Library.Sublist"
begin

unbundle bit_operations_syntax

section \<open>The nslcd daemon: process lifecycle and connection dispatch\<close>

text \<open>
  A shallow embedding of \<^verbatim>\<open>nslcd.c\<close>. Every function of the file becomes a HOL function of
  the same name over an explicit process state. What the operating system, the C library and
  the other translation units (\<^verbatim>\<open>log.h\<close>, \<^verbatim>\<open>nslcd-server.h\<close>) answer is an explicit input
  (the records \<open>world\<close> and \<open>iteration\<close>), and every call that leaves the file is appended to
  a trace of events, so that orderings of calls are properties of lists.
\<close>

subsection \<open>Constants of the platform\<close>

text \<open>
  The file compiles only where \<^verbatim>\<open>struct ucred\<close> and \<^verbatim>\<open>SO_PEERCRED\<close> exist, that is on
  Linux; the numbers below are those of \<^verbatim>\<open>signal.h\<close>, \<^verbatim>\<open>errno.h\<close> and \<^verbatim>\<open>fcntl.h\<close> of Linux
  on its generic architectures (x86, ARM, RISC-V).
\<close>

definition SIGHUP :: int where "SIGHUP = 1"
definition SIGINT :: int where "SIGINT = 2"
definition SIGQUIT :: int where "SIGQUIT = 3"
definition SIGILL :: int where "SIGILL = 4"
definition SIGTRAP :: int where "SIGTRAP = 5"
definition SIGABRT :: int where "SIGABRT = 6"
definition SIGBUS :: int where "SIGBUS = 7"
definition SIGFPE :: int where "SIGFPE = 8"
definition SIGKILL :: int where "SIGKILL = 9"
definition SIGUSR1 :: int where "SIGUSR1 = 10"
definition SIGSEGV :: int where "SIGSEGV = 11"
definition SIGUSR2 :: int where "SIGUSR2 = 12"
definition SIGPIPE :: int where "SIGPIPE = 13"
definition SIGALRM :: int where "SIGALRM = 14"
definition SIGTERM :: int where "SIGTERM = 15"
definition SIGCHLD :: int where "SIGCHLD = 17"
definition SIGCONT :: int where "SIGCONT = 18"
definition SIGSTOP :: int where "SIGSTOP = 19"
definition SIGTSTP :: int where "SIGTSTP = 20"
definition SIGTTIN :: int where "SIGTTIN = 21"
definition SIGTTOU :: int where "SIGTTOU = 22"
definition SIGURG :: int where "SIGURG = 23"
definition SIGXCPU :: int where "SIGXCPU = 24"
definition SIGXFSZ :: int where "SIGXFSZ = 25"
definition SIGVTALRM :: int where "SIGVTALRM = 26"
definition SIGPROF :: int where "SIGPROF = 27"
definition SIGPOLL :: int where "SIGPOLL = 29"
definition SIGSYS :: int where "SIGSYS = 31"

lemmas signal_numbers =
  SIGHUP_def SIGINT_def SIGQUIT_def SIGILL_def SIGTRAP_def SIGABRT_def SIGBUS_def
  SIGFPE_def SIGKILL_def SIGUSR1_def SIGSEGV_def SIGUSR2_def SIGPIPE_def SIGALRM_def
  SIGTERM_def SIGCHLD_def SIGCONT_def SIGSTOP_def SIGTSTP_def SIGTTIN_def SIGTTOU_def
  SIGURG_def SIGXCPU_def SIGXFSZ_def SIGVTALRM_def SIGPROF_def SIGPOLL_def SIGSYS_def

definition EINTR :: int where "EINTR = 4"
definition EAGAIN :: int where "EAGAIN = 11"
definition EWOULDBLOCK :: int where "EWOULDBLOCK = 11"

definition O_NONBLOCK :: int where "O_NONBLOCK = 2048"

subsection \<open>Formatted output\<close>

text \<open>
  The arguments of a \<^verbatim>\<open>printf\<close>-style call: a string, an \<^verbatim>\<open>int\<close>, or
  \<^verbatim>\<open>strerror(errno)\<close> for the value \<^verbatim>\<open>errno\<close> had at the call.
\<close>

datatype arg = AStr string | AInt int | AErrno int

definition NL :: char where "NL = CHR 0x0A"

definition digit :: "nat \<Rightarrow> char" where
  "digit d = ''0123456789'' ! d"

fun dec_nat :: "nat \<Rightarrow> string" where
  "dec_nat n = (if n < 10 then [digit n] else dec_nat (n div 10) @ [digit (n mod 10)])"

declare dec_nat.simps [simp del]

definition dec_int :: "int \<Rightarrow> string" where
  "dec_int i = (if i < 0 then CHR ''-'' # dec_nat (nat (- i)) else dec_nat (nat i))"

text \<open>
  The conversions the file uses are \<^verbatim>\<open>%s\<close> and \<^verbatim>\<open>%d\<close>; \<open>conv\<close> renders one argument
  under one conversion character, given the table of \<^verbatim>\<open>strerror\<close>. A conversion applied to
  an argument of the wrong type is undefined in C and renders as nothing here; the file has
  no such call.
\<close>

definition conv :: "(int \<Rightarrow> string) \<Rightarrow> char \<Rightarrow> arg \<Rightarrow> string" where
  "conv strerror c a =
     (case a of
        AStr x \<Rightarrow> (if c = CHR ''s'' then x else [])
      | AErrno e \<Rightarrow> (if c = CHR ''s'' then strerror e else [])
      | AInt i \<Rightarrow> (if c = CHR ''d'' then dec_int i else []))"

fun sprintf :: "(int \<Rightarrow> string) \<Rightarrow> string \<Rightarrow> arg list \<Rightarrow> string" where
  "sprintf strerror [] args = []"
| "sprintf strerror [c] args = [c]"
| "sprintf strerror (c # d # fmt) args =
     (if c = CHR ''%'' then
        (case args of
           [] \<Rightarrow> sprintf strerror fmt []
         | a # rest \<Rightarrow> conv strerror d a @ sprintf strerror fmt rest)
      else c # sprintf strerror (d # fmt) args)"

text \<open>The value of a string of decimal digits, to say what reading a number back yields.\<close>

definition dec_value :: "string \<Rightarrow> nat" where
  "dec_value cs = foldl (\<lambda>acc c. 10 * acc + (of_char c - 48)) 0 cs"

subsection \<open>Events, state and outcomes\<close>

datatype stream = Stdout | Stderr

datatype loglevel = LOG_ERR | LOG_WARNING | LOG_INFO | LOG_DEBUG

type_synonym gid_t = "32 word"
type_synonym uid_t = "32 word"

text \<open>
  One event per call that leaves \<^verbatim>\<open>nslcd.c\<close>, with the arguments the call is given. A
  \<open>Log\<close> or \<open>Fprintf\<close> event keeps the format and the arguments apart, as the source passes
  them.
\<close>

datatype event =
    Fprintf stream string "arg list"
  | GetoptDiagnostic string
  | LogSetDefaultLevel loglevel
  | LogStartLogging
  | Log loglevel string "arg list"
  | Daemon int int
  | Umask nat
  | Atexit
  | Fopen string string
  | FprintfFile string "arg list"
  | Fclose
  | ServerOpen
  | Setgroups
  | Setgid gid_t
  | Setuid uid_t
  | Sigaction int
  | Accept int
  | FcntlGetfl int
  | FcntlSetfl int int
  | GetsockoptPeercred int
  | HandleRequest int
  | Close int

text \<open>
  What is known of a file's content: \<open>Known\<close> text, or \<open>Indeterminate\<close> after a failed
  write or flush, where C promises nothing.
\<close>

datatype content = Known string | Indeterminate

datatype exitfn = Exithandler

text \<open>
  The three file-scope variables of \<^verbatim>\<open>nslcd.c\<close>, the functions registered with
  \<^verbatim>\<open>atexit\<close> (most recent first, the order in which \<^verbatim>\<open>exit\<close> runs them), the files
  written, and the trace.
\<close>

record daemon =
  nslcd_debugging :: int
  nslcd_exitsignal :: int
  nslcd_serversocket :: int
  atexit_handlers :: "exitfn list"
  files :: "string \<rightharpoonup> content"
  trace :: "event list"

definition initial :: daemon where
  "initial = \<lparr> nslcd_debugging = 0, nslcd_exitsignal = 0, nslcd_serversocket = - 1,
               atexit_handlers = [], files = Map.empty, trace = [] \<rparr>"

definition emit :: "event \<Rightarrow> daemon \<Rightarrow> daemon" where
  "emit e s = s\<lparr> trace := trace s @ [e] \<rparr>"

text \<open>
  A function of the file either returns (\<open>Inr\<close> the state) or control never comes back to
  its caller (\<open>Inl\<close>): the process has exited with a status, or it is blocked for ever in a
  call that does not return.
\<close>

datatype outcome = Exited int daemon | Blocked daemon

fun final :: "outcome \<Rightarrow> daemon" where
  "final (Exited status s) = s"
| "final (Blocked s) = s"

fun exit_status :: "outcome \<Rightarrow> int option" where
  "exit_status (Exited status s) = Some status"
| "exit_status (Blocked s) = None"

text \<open>The result of a system call: the value returned and \<^verbatim>\<open>errno\<close> after it.\<close>

type_synonym sysret = "int \<times> int"

text \<open>The macros of \<^verbatim>\<open>config.h\<close> and \<^verbatim>\<open>nslcd.h\<close>, which are not part of the two files.\<close>

record config =
  HAVE_SETGROUPS :: bool
  VERSION :: string
  PACKAGE_STRING :: string
  PACKAGE_BUGREPORT :: string
  NSS_LDAP_PATH_CONF :: string
  NSLCD_PIDFILE :: "string option"

subsection \<open>Signal names and the signal handler\<close>

definition signame :: "int \<Rightarrow> string" where
  "signame signum =
     (if signum = SIGHUP then ''SIGHUP''
      else if signum = SIGINT then ''SIGINT''
      else if signum = SIGQUIT then ''SIGQUIT''
      else if signum = SIGILL then ''SIGILL''
      else if signum = SIGABRT then ''SIGABRT''
      else if signum = SIGFPE then ''SIGFPE''
      else if signum = SIGKILL then ''SIGKILL''
      else if signum = SIGSEGV then ''SIGSEGV''
      else if signum = SIGPIPE then ''SIGPIPE''
      else if signum = SIGALRM then ''SIGALRM''
      else if signum = SIGTERM then ''SIGTERM''
      else if signum = SIGUSR1 then ''SIGUSR1''
      else if signum = SIGUSR2 then ''SIGUSR2''
      else if signum = SIGCHLD then ''SIGCHLD''
      else if signum = SIGCONT then ''SIGCONT''
      else if signum = SIGSTOP then ''SIGSTOP''
      else if signum = SIGTSTP then ''SIGTSTP''
      else if signum = SIGTTIN then ''SIGTTIN''
      else if signum = SIGTTOU then ''SIGTTOU''
      else if signum = SIGBUS then ''SIGBUS''
      else if signum = SIGPOLL then ''SIGPOLL''
      else if signum = SIGPROF then ''SIGPROF''
      else if signum = SIGSYS then ''SIGSYS''
      else if signum = SIGTRAP then ''SIGTRAP''
      else if signum = SIGURG then ''SIGURG''
      else if signum = SIGVTALRM then ''SIGVTALRM''
      else if signum = SIGXCPU then ''SIGXCPU''
      else if signum = SIGXFSZ then ''SIGXFSZ''
      else ''UNKNOWN'')"

definition known_signals :: "int list" where
  "known_signals =
     [SIGHUP, SIGINT, SIGQUIT, SIGILL, SIGABRT, SIGFPE, SIGKILL, SIGSEGV, SIGPIPE, SIGALRM,
      SIGTERM, SIGUSR1, SIGUSR2, SIGCHLD, SIGCONT, SIGSTOP, SIGTSTP, SIGTTIN, SIGTTOU,
      SIGBUS, SIGPOLL, SIGPROF, SIGSYS, SIGTRAP, SIGURG, SIGVTALRM, SIGXCPU, SIGXFSZ]"

definition sigexit_handler :: "int \<Rightarrow> daemon \<Rightarrow> daemon" where
  "sigexit_handler signum s = s\<lparr> nslcd_exitsignal := signum \<rparr>"

text \<open>
  Signals reach the process while it runs; the kernel calls the handler once for each, in
  the order of delivery. The flag is read by the loop condition of \<open>main\<close> and three
  times more at the end of \<open>main\<close>; only the order of the deliveries and these reads
  matters, so the model places the deliveries in front of each read.
\<close>

fun deliver :: "int list \<Rightarrow> daemon \<Rightarrow> daemon" where
  "deliver [] s = s"
| "deliver (signum # rest) s = deliver rest (sigexit_handler signum s)"

subsection \<open>Leaving the process\<close>

definition exithandler :: "config \<Rightarrow> sysret \<Rightarrow> daemon \<Rightarrow> daemon" where
  "exithandler cfg close_ret s =
     (let s1 =
        (if nslcd_serversocket s \<ge> 0 then
           (let s' = emit (Close (nslcd_serversocket s)) s in
            if fst close_ret \<noteq> 0
            then emit (Log LOG_WARNING ''problem closing server socket (ignored): %s''
                         [AErrno (snd close_ret)]) s'
            else s')
         else s)
      in emit (Log LOG_INFO ''version %s bailing out'' [AStr (VERSION cfg)]) s1)"

text \<open>
  \<^verbatim>\<open>exit(status)\<close> of the C library: the registered functions run, most recently
  registered first, and the process ends. \<open>close_ret\<close> is what \<^verbatim>\<open>close\<close> answers inside
  \<open>exithandler\<close>.
\<close>

fun run_atexit :: "config \<Rightarrow> sysret \<Rightarrow> exitfn list \<Rightarrow> daemon \<Rightarrow> daemon" where
  "run_atexit cfg close_ret [] s = s"
| "run_atexit cfg close_ret (Exithandler # hs) s =
     run_atexit cfg close_ret hs (exithandler cfg close_ret s)"

definition exit :: "config \<Rightarrow> sysret \<Rightarrow> int \<Rightarrow> daemon \<Rightarrow> outcome" where
  "exit cfg close_ret status s = Exited status (run_atexit cfg close_ret (atexit_handlers s) s)"

subsection \<open>Connections\<close>

record ucred =
  pid :: int
  uid :: uid_t
  gid :: gid_t

text \<open>
  What happens around the process during one pass of the accept loop: the signals delivered
  while the pass runs, the answers of \<^verbatim>\<open>accept\<close>, of the two \<^verbatim>\<open>fcntl\<close> calls, of
  \<^verbatim>\<open>getsockopt\<close> (with the credentials it stores) and of \<^verbatim>\<open>close\<close>, and whether
  \<^verbatim>\<open>nslcd_server_handlerequest\<close> comes back.
\<close>

record iteration =
  it_signals :: "int list"
  it_accept :: sysret
  it_getfl :: sysret
  it_setfl :: sysret
  it_getsockopt :: sysret
  it_client :: ucred
  it_close :: sysret
  it_handler_returns :: bool

text \<open>The idiom \<^verbatim>\<open>if (close(csock)) log_log(LOG_WARNING,...)\<close> of the error paths.\<close>

definition close_csock :: "sysret \<Rightarrow> int \<Rightarrow> daemon \<Rightarrow> daemon" where
  "close_csock close_ret csock s =
     (let s' = emit (Close csock) s in
      if fst close_ret \<noteq> 0
      then emit (Log LOG_WARNING ''problem closing socket: %s'' [AErrno (snd close_ret)]) s'
      else s')"

definition handleconnection :: "iteration \<Rightarrow> int \<Rightarrow> daemon \<Rightarrow> outcome + daemon" where
  "handleconnection it csock s =
     (let s1 = emit (GetsockoptPeercred csock) s in
      if fst (it_getsockopt it) < 0 then
        Inr (close_csock (it_close it) csock
               (emit (Log LOG_ERR ''getsockopt(SO_PEERCRED) failed: %s''
                        [AErrno (snd (it_getsockopt it))]) s1))
      else
        (let client = it_client it;
             s2 = emit (Log LOG_INFO ''connection from pid=%d uid=%d gid=%d''
                          [AInt (pid client), AInt (sint (uid client)), AInt (sint (gid client))])
                       s1;
             s3 = emit (HandleRequest csock) s2
         in if it_handler_returns it then Inr s3 else Inl (Blocked s3)))"

definition acceptconnection :: "iteration \<Rightarrow> daemon \<Rightarrow> outcome + daemon" where
  "acceptconnection it s =
     (let csock = fst (it_accept it);
          s1 = emit (Accept (nslcd_serversocket s)) s
      in
      if csock < 0 then
        (let errno = snd (it_accept it) in
         if errno = EINTR \<or> errno = EAGAIN \<or> errno = EWOULDBLOCK
         then Inr (emit (Log LOG_DEBUG ''debug: accept() failed (ignored): %s''
                           [AErrno errno]) s1)
         else Inr (emit (Log LOG_ERR ''accept() failed: %s'' [AErrno errno]) s1))
      else
        (let j = fst (it_getfl it);
             s2 = emit (FcntlGetfl csock) s1
         in
         if j < 0 then
           Inr (close_csock (it_close it) csock
                  (emit (Log LOG_ERR ''fctnl(F_GETFL) failed: %s''
                           [AErrno (snd (it_getfl it))]) s2))
         else
           (let s3 = emit (FcntlSetfl csock (j AND NOT O_NONBLOCK)) s2 in
            if fst (it_setfl it) < 0 then
              Inr (close_csock (it_close it) csock
                     (emit (Log LOG_ERR ''fctnl(F_SETFL,~O_NONBLOCK) failed: %s''
                              [AErrno (snd (it_setfl it))]) s3))
            else handleconnection it csock s3)))"

subsection \<open>The command line\<close>

text \<open>
  \<^verbatim>\<open>getopt_long\<close> belongs to the C library. The model follows its manual page for the case
  the file needs: every entry of the table has \<^verbatim>\<open>has_arg = no_argument\<close> and
  \<^verbatim>\<open>flag = NULL\<close>, so an entry is a name and the value returned for it, and the option
  string holds no \<^verbatim>\<open>:\<close>, so no short option takes an argument either.
\<close>

record long_option =
  name :: string
  val :: char

definition nslcd_options :: "long_option list" where
  "nslcd_options =
     [\<lparr> name = ''debug'', val = CHR ''d'' \<rparr>,
      \<lparr> name = ''help'', val = CHR ''h'' \<rparr>,
      \<lparr> name = ''version'', val = CHR ''V'' \<rparr>]"

definition NSLCD_OPTIONSTRING :: string where
  "NSLCD_OPTIONSTRING = ''dhV''"

text \<open>
  One call of \<^verbatim>\<open>getopt_long\<close> that does not return -1 either returns the value of an
  option, or prints its own diagnostic about an element of \<^verbatim>\<open>argv\<close> on standard error
  (\<^verbatim>\<open>opterr\<close> is never cleared) and returns \<^verbatim>\<open>'?'\<close>.
\<close>

datatype getopt_result = Returned char | Diagnosed string

definition optc_of :: "getopt_result \<Rightarrow> char" where
  "optc_of r = (case r of Returned c \<Rightarrow> c | Diagnosed a \<Rightarrow> CHR ''?'')"

text \<open>
  A short option character is accepted when it occurs in the option string. A long option
  \<^verbatim>\<open>--name\<close> or \<^verbatim>\<open>--name=value\<close> is looked up by its name: an exact match wins, otherwise
  the entries the name is a prefix of are the candidates, and more than one candidate with
  different values is an ambiguity. A value given to an option that takes none is an error.
\<close>

definition short_match :: "string \<Rightarrow> string \<Rightarrow> char \<Rightarrow> getopt_result" where
  "short_match optstring a c =
     (if c \<in> set optstring \<and> c \<noteq> CHR '':'' \<and> c \<noteq> CHR '';'' then Returned c else Diagnosed a)"

definition long_match :: "long_option list \<Rightarrow> string \<Rightarrow> getopt_result" where
  "long_match longopts a =
     (let body = drop 2 a;
          nm = takeWhile (\<lambda>c. c \<noteq> CHR ''='') body;
          has_value = (CHR ''='' \<in> set body);
          found = (\<lambda>p. if has_value then Diagnosed a else Returned (val p))
      in case filter (\<lambda>p. name p = nm) longopts of
           p # ps \<Rightarrow> found p
         | [] \<Rightarrow>
             (case filter (\<lambda>p. prefix nm (name p)) longopts of
                [] \<Rightarrow> Diagnosed a
              | p # ps \<Rightarrow> if \<forall>q \<in> set ps. val q = val p then found p else Diagnosed a))"

definition is_option :: "string \<Rightarrow> bool" where
  "is_option a \<longleftrightarrow> take 1 a = ''-'' \<and> a \<noteq> ''-''"

text \<open>
  The results of the successive calls of \<^verbatim>\<open>getopt_long\<close> over \<^verbatim>\<open>argv[1..]\<close>, up to the
  call that returns -1. An element \<^verbatim>\<open>--\<close> ends the options. An element that is not an
  option is skipped (the library moves it behind the options), unless the environment
  variable \<^verbatim>\<open>POSIXLY_CORRECT\<close> is set: then it ends the options.
\<close>

fun getopt_long :: "bool \<Rightarrow> string \<Rightarrow> long_option list \<Rightarrow> string list \<Rightarrow> getopt_result list"
where
  "getopt_long posix optstring longopts [] = []"
| "getopt_long posix optstring longopts (a # rest) =
     (if a = ''--'' then []
      else if take 2 a = ''--'' then
        long_match longopts a # getopt_long posix optstring longopts rest
      else if is_option a then
        map (short_match optstring a) (tl a) @ getopt_long posix optstring longopts rest
      else if posix then []
      else getopt_long posix optstring longopts rest)"

text \<open>
  The elements \<^verbatim>\<open>argv[optind..argc-1]\<close> once \<^verbatim>\<open>getopt_long\<close> has returned -1: the skipped
  elements in their order, then everything behind \<^verbatim>\<open>--\<close>.
\<close>

fun operands :: "bool \<Rightarrow> string list \<Rightarrow> string list" where
  "operands posix [] = []"
| "operands posix (a # rest) =
     (if a = ''--'' then rest
      else if is_option a then operands posix rest
      else if posix then a # rest
      else a # operands posix rest)"

definition display_version :: "config \<Rightarrow> stream \<Rightarrow> daemon \<Rightarrow> daemon" where
  "display_version cfg fp s =
     (let s1 = emit (Fprintf fp (''%s'' @ [NL]) [AStr (PACKAGE_STRING cfg)]) s;
          s2 = emit (Fprintf fp (''Written by Luke Howard and Arthur de Jong.'' @ [NL, NL]) []) s1
      in emit (Fprintf fp
           (''Copyright (C) 1997-2006 Luke Howard, Arthur de Jong and West Consulting'' @ [NL] @
            ''This is free software; see the source for copying conditions.  There is NO'' @ [NL] @
            ''warranty; not even for MERCHANTABILITY or FITNESS FOR A PARTICULAR PURPOSE.'' @ [NL])
           []) s2)"

definition display_usage :: "config \<Rightarrow> stream \<Rightarrow> string \<Rightarrow> daemon \<Rightarrow> daemon" where
  "display_usage cfg fp program_name s =
     (let s1 = emit (Fprintf fp (''Usage: %s [OPTION]...'' @ [NL]) [AStr program_name]) s;
          s2 = emit (Fprintf fp (''Name Service LDAP connection daemon.'' @ [NL]) []) s1;
          s3 = emit (Fprintf fp
                 (''  -f, --config=FILE  use FILE as configfile (default %s)'' @ [NL])
                 [AStr (NSS_LDAP_PATH_CONF cfg)]) s2;
          s4 = emit (Fprintf fp
                 (''  -d, --debug        don't fork and print debugging to stderr'' @ [NL]) []) s3;
          s5 = emit (Fprintf fp
                 (''      --help         display this help and exit'' @ [NL]) []) s4;
          s6 = emit (Fprintf fp
                 (''      --version      output version information and exit'' @ [NL]) []) s5
      in emit (Fprintf fp ([NL] @ ''Report bugs to <%s>.'' @ [NL])
                 [AStr (PACKAGE_BUGREPORT cfg)]) s6)"

definition usage_hint :: string where
  "usage_hint = ''Try `%s --help' for more information.'' @ [NL]"

definition unrecognized :: string where
  "unrecognized = ''%s: unrecognized option `%s'' @ [CHR 0x27, NL]"

text \<open>
  The \<^verbatim>\<open>while\<close> loop of \<open>parse_cmdline\<close> over the results of \<^verbatim>\<open>getopt_long\<close>; the
  \<^verbatim>\<open>switch\<close> sends \<^verbatim>\<open>':'\<close>, \<^verbatim>\<open>'?'\<close> and every other value to the same branch.
\<close>

fun parse_options ::
  "config \<Rightarrow> sysret \<Rightarrow> string \<Rightarrow> getopt_result list \<Rightarrow> daemon \<Rightarrow> outcome + daemon"
where
  "parse_options cfg close_ret prog [] s = Inr s"
| "parse_options cfg close_ret prog (r # rs) s =
     (let s0 = (case r of Diagnosed a \<Rightarrow> emit (GetoptDiagnostic a) s | Returned c \<Rightarrow> s);
          optc = optc_of r
      in
      if optc = CHR ''d'' then
        parse_options cfg close_ret prog rs
          (emit (LogSetDefaultLevel LOG_DEBUG) (s0\<lparr> nslcd_debugging := 1 \<rparr>))
      else if optc = CHR ''h'' then
        Inl (exit cfg close_ret 0 (display_usage cfg Stdout prog s0))
      else if optc = CHR ''V'' then
        Inl (exit cfg close_ret 0 (display_version cfg Stdout s0))
      else
        Inl (exit cfg close_ret 1 (emit (Fprintf Stderr usage_hint [AStr prog]) s0)))"

text \<open>
  \<open>parse_cmdline\<close> gets \<^verbatim>\<open>argv[0]\<close> and the rest of \<^verbatim>\<open>argv\<close> apart, so \<^verbatim>\<open>argc\<close> is at
  least 1.
\<close>

definition parse_cmdline ::
  "config \<Rightarrow> sysret \<Rightarrow> bool \<Rightarrow> string \<Rightarrow> string list \<Rightarrow> daemon \<Rightarrow> outcome + daemon"
where
  "parse_cmdline cfg close_ret posix prog args s =
     (case parse_options cfg close_ret prog
             (getopt_long posix NSLCD_OPTIONSTRING nslcd_options args) s of
        Inl out \<Rightarrow> Inl out
      | Inr s1 \<Rightarrow>
          (case operands posix args of
             [] \<Rightarrow> Inr s1
           | a # rest \<Rightarrow>
               Inl (exit cfg close_ret 1
                      (emit (Fprintf Stderr usage_hint [AStr prog])
                         (emit (Fprintf Stderr unrecognized [AStr prog, AStr a]) s1)))))"

subsection \<open>The world around one run\<close>

datatype fopen_result = Stream | Null int

text \<open>
  Modelled from the spec: \<^verbatim>\<open>nslcd_server_open\<close> of \<^verbatim>\<open>nslcd-server.h\<close> is not part of the
  two files. The spec gives it as \<^verbatim>\<open>open_listener() -> descriptor\<close> (may fail, fatal): it
  returns a descriptor, or it ends the process itself with a status.
\<close>

datatype server_open_result = Opened int | Failed int

text \<open>
  Everything one run of \<open>main\<close> is told from outside: \<^verbatim>\<open>argv\<close>, whether
  \<^verbatim>\<open>POSIXLY_CORRECT\<close> is set, the answer of each call of the operating system and of the
  C library, the signals delivered between the installation of the handlers and the loop,
  and one \<open>iteration\<close> for each pass of the loop in which \<^verbatim>\<open>accept\<close> returns. When the
  iterations are used up nothing more happens: the next \<^verbatim>\<open>accept\<close> blocks for ever.

  The handlers stay installed when the loop is left, and the end of \<open>main\<close> reads the
  flag again: in the test \<^verbatim>\<open>nslcd_exitsignal!=0\<close> and in the two arguments of
  \<^verbatim>\<open>log_log\<close>, which C evaluates in an order it leaves to the compiler. So the world
  also gives the signals delivered before the test, between the test and the first of the
  two argument reads, and between the two argument reads, and which argument is read first.
\<close>

record world =
  w_prog :: string
  w_args :: "string list"
  w_posixly_correct :: bool
  w_daemon :: sysret
  w_atexit :: int
  w_fopen :: fopen_result
  w_getpid :: int
  w_fprintf_fails :: bool
  w_fclose :: sysret
  w_server_open :: server_open_result
  w_setgroups :: sysret
  w_setgid :: sysret
  w_setuid :: sysret
  w_sigaction :: "int \<Rightarrow> sysret"
  w_early_signals :: "int list"
  w_iterations :: "iteration list"
  w_signals_after_loop :: "int list"
  w_signals_before_log :: "int list"
  w_signals_between_reads :: "int list"
  w_number_read_first :: bool
  w_close :: sysret

subsection \<open>The PID file\<close>

text \<open>
  \<^verbatim>\<open>fopen(filename,"w")\<close> creates or truncates the file. \<^verbatim>\<open>fprintf\<close> returns the number
  of characters it has transmitted, or a negative value. The text is on the file for certain
  only when \<^verbatim>\<open>fclose\<close> has succeeded.
\<close>

definition pid_format :: string where
  "pid_format = ''%d'' @ [NL]"

definition write_pidfile :: "config \<Rightarrow> world \<Rightarrow> string option \<Rightarrow> daemon \<Rightarrow> outcome + daemon"
where
  "write_pidfile cfg w filename s =
     (case filename of
        None \<Rightarrow> Inr s
      | Some fn \<Rightarrow>
          (let s1 = emit (Fopen fn ''w'') s in
           case w_fopen w of
             Null errno \<Rightarrow>
               Inl (exit cfg (w_close w) 1
                      (emit (Log LOG_ERR ''cannot open pid file (%s): %s''
                               [AStr fn, AErrno errno]) s1))
           | Stream \<Rightarrow>
               (let s2 = s1\<lparr> files := (files s1)(fn \<mapsto> Known []) \<rparr>;
                    line = sprintf (\<lambda>e. []) pid_format [AInt (w_getpid w)];
                    written = (if w_fprintf_fails w then - 1 else int (length line));
                    s3 = emit (FprintfFile pid_format [AInt (w_getpid w)]) s2
                in
                if written \<le> 0 then
                  Inl (exit cfg (w_close w) 1
                         (emit (Log LOG_ERR ''error writing pid file (%s)'' [AStr fn])
                            (s3\<lparr> files := (files s3)(fn \<mapsto> Indeterminate) \<rparr>)))
                else
                  (let s4 = emit Fclose s3 in
                   if fst (w_fclose w) \<noteq> 0 then
                     Inl (exit cfg (w_close w) 1
                            (emit (Log LOG_ERR ''error writing pid file (%s): %s''
                                     [AStr fn, AErrno (snd (w_fclose w))])
                               (s4\<lparr> files := (files s4)(fn \<mapsto> Indeterminate) \<rparr>)))
                   else Inr (s4\<lparr> files := (files s4)(fn \<mapsto> Known line) \<rparr>)))))"

subsection \<open>Signal handlers\<close>

text \<open>
  \<open>install_sighandler\<close> is only ever given \<open>sigexit_handler\<close>; the event records the
  signal. The flags are \<^verbatim>\<open>SA_RESTART|SA_NOCLDSTOP\<close>.
\<close>

definition install_sighandler :: "config \<Rightarrow> world \<Rightarrow> int \<Rightarrow> daemon \<Rightarrow> outcome + daemon" where
  "install_sighandler cfg w signum s =
     (let s1 = emit (Sigaction signum) s in
      if fst (w_sigaction w signum) \<noteq> 0 then
        Inl (exit cfg (w_close w) 1
               (emit (Log LOG_ERR ''error installing signal handler for '%s': %s''
                        [AStr (signame signum), AErrno (snd (w_sigaction w signum))]) s1))
      else Inr s1)"

text \<open>The calls of \<open>install_sighandler\<close> in \<open>main\<close>, one after the other.\<close>

fun install_sighandlers :: "config \<Rightarrow> world \<Rightarrow> int list \<Rightarrow> daemon \<Rightarrow> outcome + daemon" where
  "install_sighandlers cfg w [] s = Inr s"
| "install_sighandlers cfg w (signum # rest) s =
     (case install_sighandler cfg w signum s of
        Inl out \<Rightarrow> Inl out
      | Inr s1 \<Rightarrow> install_sighandlers cfg w rest s1)"

definition installed_signals :: "int list" where
  "installed_signals = [SIGHUP, SIGINT, SIGQUIT, SIGABRT, SIGPIPE, SIGTERM, SIGUSR1, SIGUSR2]"

subsection \<open>The main program\<close>

text \<open>
  \<open>main\<close> is cut at its comments into the stretch up to the creation of the socket, the
  change of identity, the loop and the end. The blocks under \<^verbatim>\<open>USE_CAPABILITIES\<close> use the
  variables \<^verbatim>\<open>caps\<close> and \<^verbatim>\<open>mycapabilities\<close>, which the file declares nowhere: the file
  compiles only without that macro, and the model has no such blocks.

  \<^verbatim>\<open>daemon(0,0)\<close> forks; where it succeeds the model goes on as the child.
\<close>

definition main_setup :: "config \<Rightarrow> world \<Rightarrow> daemon \<Rightarrow> outcome + daemon" where
  "main_setup cfg w s =
     (let s1 = (if nslcd_debugging s = 0 then emit (Daemon 0 0) s else s) in
      if nslcd_debugging s = 0 \<and> fst (w_daemon w) < 0 then
        Inl (exit cfg (w_close w) 1
               (emit (Log LOG_ERR ''unable to daemonize: %s'' [AErrno (snd (w_daemon w))]) s1))
      else
        (let s2 = emit (Umask 18) s1;
             s3 = (if nslcd_debugging s = 0 then emit LogStartLogging s2 else s2);
             s4 = emit (Log LOG_INFO ''version %s starting'' [AStr (VERSION cfg)]) s3;
             s5 = emit Atexit
                    (if w_atexit w = 0
                     then s4\<lparr> atexit_handlers := Exithandler # atexit_handlers s4 \<rparr>
                     else s4)
         in
         case write_pidfile cfg w (NSLCD_PIDFILE cfg) s5 of
           Inl out \<Rightarrow> Inl out
         | Inr s6 \<Rightarrow>
             (let s7 = emit ServerOpen s6 in
              case w_server_open w of
                Failed status \<Rightarrow> Inl (exit cfg (w_close w) status s7)
              | Opened fd \<Rightarrow> Inr (s7\<lparr> nslcd_serversocket := fd \<rparr>))))"

text \<open>
  The change of identity, for any values of the two local variables \<open>mygid\<close> and
  \<open>myuid\<close> of \<open>main\<close>. The arguments of \<^verbatim>\<open>%d\<close> are the identities read as \<^verbatim>\<open>int\<close>.
\<close>

definition main_privileges ::
  "config \<Rightarrow> world \<Rightarrow> gid_t \<Rightarrow> uid_t \<Rightarrow> daemon \<Rightarrow> outcome + daemon"
where
  "main_privileges cfg w mygid myuid s =
     (let s1 =
        (if HAVE_SETGROUPS cfg then
           (let s' = emit Setgroups s in
            if fst (w_setgroups w) < 0
            then emit (Log LOG_WARNING ''cannot setgroups(0,NULL) (ignored): %s''
                         [AErrno (snd (w_setgroups w))]) s'
            else emit (Log LOG_DEBUG ''debug: setgroups(0,NULL) done'' []) s')
         else emit (Log LOG_DEBUG ''debug: setgroups() not available'' []) s)
      in
      case
        (if mygid \<noteq> - 1 then
           (let s' = emit (Setgid mygid) s1 in
            if fst (w_setgid w) \<noteq> 0 then
              Inl (exit cfg (w_close w) 1
                     (emit (Log LOG_ERR ''cannot setgid(%d): %s''
                              [AInt (sint mygid), AErrno (snd (w_setgid w))]) s'))
            else Inr (emit (Log LOG_DEBUG ''debug: setgid(%d) done'' [AInt (sint mygid)]) s'))
         else Inr s1)
      of
        Inl out \<Rightarrow> Inl out
      | Inr s2 \<Rightarrow>
          (if myuid \<noteq> - 1 then
             (let s' = emit (Setuid myuid) s2 in
              if fst (w_setuid w) \<noteq> 0 then
                Inl (exit cfg (w_close w) 1
                       (emit (Log LOG_ERR ''cannot setuid(%d): %s''
                                [AInt (sint myuid), AErrno (snd (w_setuid w))]) s'))
              else Inr (emit (Log LOG_DEBUG ''debug: setuid(%d) done'' [AInt (sint myuid)]) s'))
           else Inr s2))"

text \<open>
  The loop \<^verbatim>\<open>while (nslcd_exitsignal==0) acceptconnection();\<close>. With no iteration left the
  call of \<^verbatim>\<open>accept\<close> is made and does not return.
\<close>

fun main_loop :: "iteration list \<Rightarrow> daemon \<Rightarrow> outcome + daemon" where
  "main_loop [] s =
     (if nslcd_exitsignal s = 0
      then Inl (Blocked (emit (Accept (nslcd_serversocket s)) s))
      else Inr s)"
| "main_loop (it # its) s =
     (if nslcd_exitsignal s = 0 then
        (case acceptconnection it (deliver (it_signals it) s) of
           Inl out \<Rightarrow> Inl out
         | Inr s1 \<Rightarrow> main_loop its s1)
      else Inr s)"

text \<open>
  The end of \<open>main\<close>, with its three reads of the flag: \<open>tested\<close> by the
  \<^verbatim>\<open>if\<close>, and \<open>first\<close> and \<open>second\<close> for the two arguments of \<^verbatim>\<open>log_log\<close> in the
  order the compiler has chosen. \<^verbatim>\<open>return 1\<close> from \<open>main\<close> is \<^verbatim>\<open>exit(1)\<close>.
\<close>

definition main_finish :: "config \<Rightarrow> world \<Rightarrow> daemon \<Rightarrow> outcome" where
  "main_finish cfg w s =
     (let s1 = deliver (w_signals_after_loop w) s;
          tested = nslcd_exitsignal s1;
          s2 = deliver (w_signals_before_log w) s1;
          first = nslcd_exitsignal s2;
          s3 = deliver (w_signals_between_reads w) s2;
          second = nslcd_exitsignal s3;
          s4 =
            (if tested \<noteq> 0
             then emit (Log LOG_INFO ''caught signal %s (%d), shutting down''
                          (if w_number_read_first w
                           then [AStr (signame second), AInt first]
                           else [AStr (signame first), AInt second])) s3
             else s3)
      in exit cfg (w_close w) 1 s4)"

definition main :: "config \<Rightarrow> world \<Rightarrow> outcome" where
  "main cfg w =
     (let mygid = - 1; myuid = - 1 in
      case parse_cmdline cfg (w_close w) (w_posixly_correct w) (w_prog w) (w_args w) initial of
        Inl out \<Rightarrow> out
      | Inr s1 \<Rightarrow>
      (case main_setup cfg w s1 of
        Inl out \<Rightarrow> out
      | Inr s2 \<Rightarrow>
      (case main_privileges cfg w mygid myuid s2 of
        Inl out \<Rightarrow> out
      | Inr s3 \<Rightarrow>
      (case install_sighandlers cfg w
              [SIGHUP, SIGINT, SIGQUIT, SIGABRT, SIGPIPE, SIGTERM, SIGUSR1, SIGUSR2] s3 of
        Inl out \<Rightarrow> out
      | Inr s4 \<Rightarrow>
      (case main_loop (w_iterations w)
              (emit (Log LOG_INFO ''accepting connections'' [])
                 (deliver (w_early_signals w) s4)) of
        Inl out \<Rightarrow> out
      | Inr s5 \<Rightarrow> main_finish cfg w s5)))))"

subsection \<open>Reading results\<close>

text \<open>The state a call leaves behind, however it ends.\<close>

definition after :: "outcome + daemon \<Rightarrow> daemon" where
  "after r = (case r of Inl out \<Rightarrow> final out | Inr s \<Rightarrow> s)"

text \<open>Whether the call came back to its caller, and the status the process exited with.\<close>

definition returns :: "outcome + daemon \<Rightarrow> bool" where
  "returns r = (case r of Inl out \<Rightarrow> False | Inr s \<Rightarrow> True)"

definition exited :: "outcome + daemon \<Rightarrow> int option" where
  "exited r = (case r of Inl out \<Rightarrow> exit_status out | Inr s \<Rightarrow> None)"

text \<open>The lines \<^verbatim>\<open>close\<close> adds to the trace on an error path.\<close>

definition closing :: "sysret \<Rightarrow> int \<Rightarrow> event list" where
  "closing close_ret csock =
     Close csock #
       (if fst close_ret \<noteq> 0
        then [Log LOG_WARNING ''problem closing socket: %s'' [AErrno (snd close_ret)]]
        else [])"

text \<open>Concrete inputs on which the theorems below are run.\<close>

definition example_config :: config where
  "example_config =
     \<lparr> HAVE_SETGROUPS = True, VERSION = ''0.1'', PACKAGE_STRING = ''nss-ldapd 0.1'',
       PACKAGE_BUGREPORT = ''bugs@example.org'',
       NSS_LDAP_PATH_CONF = ''/etc/nss-ldapd.conf'',
       NSLCD_PIDFILE = Some ''/var/run/nslcd.pid'' \<rparr>"

definition example_iteration :: iteration where
  "example_iteration =
     \<lparr> it_signals = [], it_accept = (5, 0), it_getfl = (2050, 0), it_setfl = (0, 0),
       it_getsockopt = (0, 0), it_client = \<lparr> pid = 100, uid = 1000, gid = 1000 \<rparr>,
       it_close = (0, 0), it_handler_returns = True \<rparr>"

definition example_world :: world where
  "example_world =
     \<lparr> w_prog = ''nslcd'', w_args = [''-d''], w_posixly_correct = False,
       w_daemon = (0, 0), w_atexit = 0, w_fopen = Stream, w_getpid = 4321,
       w_fprintf_fails = False, w_fclose = (0, 0), w_server_open = Opened 3,
       w_setgroups = (0, 0), w_setgid = (0, 0), w_setuid = (0, 0),
       w_sigaction = (\<lambda>signum. (0, 0)), w_early_signals = [],
       w_iterations = [example_iteration], w_signals_after_loop = [],
       w_signals_before_log = [], w_signals_between_reads = [],
       w_number_read_first = False, w_close = (0, 0) \<rparr>"

definition serving :: daemon where
  "serving = initial\<lparr> nslcd_serversocket := 3 \<rparr>"

text \<open>
  The calls that change the identity of the process, and their subsequence in a trace.
\<close>

fun is_idcall :: "event \<Rightarrow> bool" where
  "is_idcall Setgroups = True"
| "is_idcall (Setgid g) = True"
| "is_idcall (Setuid u) = True"
| "is_idcall e = False"

definition idcalls :: "event list \<Rightarrow> event list" where
  "idcalls tr = filter is_idcall tr"

text \<open>
  The line \<open>exithandler\<close> logs last, and how often a trace holds it: once for each run of
  \<open>exithandler\<close>.
\<close>

definition bailing_out :: "config \<Rightarrow> event" where
  "bailing_out cfg = Log LOG_INFO ''version %s bailing out'' [AStr (VERSION cfg)]"

definition bails :: "config \<Rightarrow> event list \<Rightarrow> nat" where
  "bails cfg tr = count_list tr (bailing_out cfg)"

text \<open>
  What holds of a run of \<open>main\<close> while it is under way (the identity calls made so far
  are \<open>g\<close>, \<open>exithandler\<close> has not run, at most \<open>k\<close> functions are registered with
  \<^verbatim>\<open>atexit\<close>) and once it has ended, and the two together for the result of one stretch.
\<close>

definition underway :: "config \<Rightarrow> event list \<Rightarrow> nat \<Rightarrow> daemon \<Rightarrow> bool" where
  "underway cfg g k s \<longleftrightarrow>
     idcalls (trace s) = g \<and> bails cfg (trace s) = 0 \<and> length (atexit_handlers s) \<le> k"

definition ended :: "config \<Rightarrow> outcome \<Rightarrow> bool" where
  "ended cfg out \<longleftrightarrow>
     prefix (idcalls (trace (final out))) [Setgroups] \<and> bails cfg (trace (final out)) \<le> 1"

definition step :: "config \<Rightarrow> event list \<Rightarrow> nat \<Rightarrow> outcome + daemon \<Rightarrow> bool" where
  "step cfg g k r = (case r of Inl out \<Rightarrow> ended cfg out | Inr s \<Rightarrow> underway cfg g k s)"

text \<open>
  Elements of \<^verbatim>\<open>argv\<close>: the spellings of the three options, an option that matches no
  entry of the table and no character of the option string, the spellings that would mean
  the configuration file (short \<^verbatim>\<open>-f\<close>, long a prefix of \<^verbatim>\<open>--config\<close>), and the state
  after \<open>n\<close> debug options.
\<close>

definition debug_flag :: "string \<Rightarrow> bool" where
  "debug_flag a \<longleftrightarrow> a = ''-d'' \<or> a = ''--debug''"

definition help_flag :: "string \<Rightarrow> bool" where
  "help_flag a \<longleftrightarrow> a = ''-h'' \<or> a = ''--help''"

definition version_flag :: "string \<Rightarrow> bool" where
  "version_flag a \<longleftrightarrow> a = ''-V'' \<or> a = ''--version''"

definition long_name :: "string \<Rightarrow> string" where
  "long_name a = takeWhile (\<lambda>c. c \<noteq> CHR ''='') (drop 2 a)"

definition unknown_option :: "string \<Rightarrow> bool" where
  "unknown_option a \<longleftrightarrow>
     is_option a \<and> a \<noteq> ''--'' \<and>
     (if take 2 a = ''--''
      then \<not> (\<exists>p \<in> set nslcd_options. prefix (long_name a) (name p))
      else hd (tl a) \<notin> set NSLCD_OPTIONSTRING)"

definition config_option :: "string \<Rightarrow> bool" where
  "config_option a \<longleftrightarrow>
     (if take 2 a = ''--'' then prefix (long_name a) ''config'' else take 2 a = ''-f'')"

fun debugging_on :: "nat \<Rightarrow> daemon \<Rightarrow> daemon" where
  "debugging_on 0 s = s"
| "debugging_on (Suc n) s =
     debugging_on n (emit (LogSetDefaultLevel LOG_DEBUG) (s\<lparr> nslcd_debugging := 1 \<rparr>))"

text \<open>
  The signals delivered while the end of \<open>main\<close> runs, and the number the flag holds
  when the first argument of the last log call is read.
\<close>

definition late_signals :: "world \<Rightarrow> int list" where
  "late_signals w =
     w_signals_after_loop w @ w_signals_before_log w @ w_signals_between_reads w"

definition logged_signal :: "world \<Rightarrow> daemon \<Rightarrow> int" where
  "logged_signal w s =
     nslcd_exitsignal (deliver (w_signals_after_loop w @ w_signals_before_log w) s)"

section \<open>Properties\<close>

subsection \<open>Basic facts\<close>

lemma after_simps [simp]:
  "after (Inr s) = s" "after (Inl (Exited st s)) = s" "after (Inl (Blocked s)) = s"
  by (simp_all add: after_def)

lemma returns_simps [simp]:
  "returns (Inr s) = True" "returns (Inl out) = False"
  by (simp_all add: returns_def)

lemma exited_simps [simp]:
  "exited (Inr s) = None" "exited (Inl (Exited st s)) = Some st" "exited (Inl (Blocked s)) = None"
  by (simp_all add: exited_def)

lemma emit_fields [simp]:
  "trace (emit e s) = trace s @ [e]"
  "nslcd_exitsignal (emit e s) = nslcd_exitsignal s"
  "nslcd_serversocket (emit e s) = nslcd_serversocket s"
  "nslcd_debugging (emit e s) = nslcd_debugging s"
  "atexit_handlers (emit e s) = atexit_handlers s"
  "files (emit e s) = files s"
  by (simp_all add: emit_def)

lemma close_csock_fields [simp]:
  "trace (close_csock r csock s) = trace s @ closing r csock"
  "nslcd_exitsignal (close_csock r csock s) = nslcd_exitsignal s"
  "nslcd_serversocket (close_csock r csock s) = nslcd_serversocket s"
  "nslcd_debugging (close_csock r csock s) = nslcd_debugging s"
  "atexit_handlers (close_csock r csock s) = atexit_handlers s"
  "files (close_csock r csock s) = files s"
  by (simp_all add: close_csock_def closing_def Let_def)

lemma handleconnection_trace:
  "trace (after (handleconnection it csock s)) =
     trace s @ GetsockoptPeercred csock #
       (if fst (it_getsockopt it) < 0
        then Log LOG_ERR ''getsockopt(SO_PEERCRED) failed: %s'' [AErrno (snd (it_getsockopt it))] #
             closing (it_close it) csock
        else [Log LOG_INFO ''connection from pid=%d uid=%d gid=%d''
                [AInt (pid (it_client it)), AInt (sint (uid (it_client it))),
                 AInt (sint (gid (it_client it)))],
              HandleRequest csock])"
  by (simp add: handleconnection_def Let_def)

lemma handleconnection_returns:
  "returns (handleconnection it csock s) \<longleftrightarrow>
     fst (it_getsockopt it) < 0 \<or> it_handler_returns it"
  by (simp add: handleconnection_def Let_def)

lemma handleconnection_exited [simp]: "exited (handleconnection it csock s) = None"
  by (simp add: handleconnection_def Let_def)

lemma handleconnection_fields [simp]:
  "nslcd_exitsignal (after (handleconnection it csock s)) = nslcd_exitsignal s"
  "nslcd_serversocket (after (handleconnection it csock s)) = nslcd_serversocket s"
  "atexit_handlers (after (handleconnection it csock s)) = atexit_handlers s"
  by (simp_all add: handleconnection_def Let_def)

subsection \<open>The connection dispatcher\<close>

text \<open>
  Claim C5. When the query for the peer's credentials fails, \<open>handleconnection\<close> logs the
  error, closes the connection and returns without calling the request handler. When it
  succeeds, it logs pid, uid and gid at informational level and calls the handler with the
  connection; it makes no \<^verbatim>\<open>close\<close> call of its own, and it returns exactly when the
  handler does.
\<close>

theorem handleconnection_dispatch:
  "(fst (it_getsockopt it) < 0 \<longrightarrow>
      returns (handleconnection it csock s) \<and>
      trace (after (handleconnection it csock s)) =
        trace s @
          [GetsockoptPeercred csock,
           Log LOG_ERR ''getsockopt(SO_PEERCRED) failed: %s'' [AErrno (snd (it_getsockopt it))]] @
          closing (it_close it) csock \<and>
      hd (closing (it_close it) csock) = Close csock \<and>
      HandleRequest csock \<notin> set (closing (it_close it) csock)) \<and>
   (0 \<le> fst (it_getsockopt it) \<longrightarrow>
      (returns (handleconnection it csock s) \<longleftrightarrow> it_handler_returns it) \<and>
      exited (handleconnection it csock s) = None \<and>
      trace (after (handleconnection it csock s)) =
        trace s @
          [GetsockoptPeercred csock,
           Log LOG_INFO ''connection from pid=%d uid=%d gid=%d''
             [AInt (pid (it_client it)), AInt (sint (uid (it_client it))),
              AInt (sint (gid (it_client it)))],
           HandleRequest csock])"
  by (simp add: handleconnection_trace handleconnection_returns closing_def)

theorem handleconnection_dispatch_witness:
  "fst (it_getsockopt (example_iteration\<lparr> it_getsockopt := (- 1, 9) \<rparr>)) < 0 \<and>
   trace (after (handleconnection (example_iteration\<lparr> it_getsockopt := (- 1, 9) \<rparr>) 5 serving)) =
     [GetsockoptPeercred 5, Log LOG_ERR ''getsockopt(SO_PEERCRED) failed: %s'' [AErrno 9],
      Close 5] \<and>
   0 \<le> fst (it_getsockopt example_iteration) \<and>
   trace (after (handleconnection example_iteration 5 serving)) =
     [GetsockoptPeercred 5,
      Log LOG_INFO ''connection from pid=%d uid=%d gid=%d'' [AInt 100, AInt 1000, AInt 1000],
      HandleRequest 5]"
  using handleconnection_dispatch [of "example_iteration\<lparr> it_getsockopt := (- 1, 9) \<rparr>" 5 serving]
    handleconnection_dispatch [of example_iteration 5 serving]
  by (simp add: example_iteration_def serving_def initial_def closing_def)

subsection \<open>The accept loop\<close>

lemma deliver_fields [simp]:
  "trace (deliver sigs s) = trace s"
  "nslcd_serversocket (deliver sigs s) = nslcd_serversocket s"
  "nslcd_debugging (deliver sigs s) = nslcd_debugging s"
  "atexit_handlers (deliver sigs s) = atexit_handlers s"
  "files (deliver sigs s) = files s"
  by (induction sigs arbitrary: s; simp add: sigexit_handler_def)+

lemma acceptconnection_trace:
  "trace (after (acceptconnection it s)) =
     trace s @ Accept (nslcd_serversocket s) #
       (if fst (it_accept it) < 0 then
          [if snd (it_accept it) = EINTR \<or> snd (it_accept it) = EAGAIN \<or>
              snd (it_accept it) = EWOULDBLOCK
           then Log LOG_DEBUG ''debug: accept() failed (ignored): %s'' [AErrno (snd (it_accept it))]
           else Log LOG_ERR ''accept() failed: %s'' [AErrno (snd (it_accept it))]]
        else
          FcntlGetfl (fst (it_accept it)) #
            (if fst (it_getfl it) < 0 then
               Log LOG_ERR ''fctnl(F_GETFL) failed: %s'' [AErrno (snd (it_getfl it))] #
               closing (it_close it) (fst (it_accept it))
             else
               FcntlSetfl (fst (it_accept it)) (fst (it_getfl it) AND NOT O_NONBLOCK) #
                 (if fst (it_setfl it) < 0 then
                    Log LOG_ERR ''fctnl(F_SETFL,~O_NONBLOCK) failed: %s''
                      [AErrno (snd (it_setfl it))] #
                    closing (it_close it) (fst (it_accept it))
                  else
                    GetsockoptPeercred (fst (it_accept it)) #
                      (if fst (it_getsockopt it) < 0
                       then Log LOG_ERR ''getsockopt(SO_PEERCRED) failed: %s''
                              [AErrno (snd (it_getsockopt it))] #
                            closing (it_close it) (fst (it_accept it))
                       else [Log LOG_INFO ''connection from pid=%d uid=%d gid=%d''
                               [AInt (pid (it_client it)), AInt (sint (uid (it_client it))),
                                AInt (sint (gid (it_client it)))],
                             HandleRequest (fst (it_accept it))]))))"
  by (simp add: acceptconnection_def Let_def handleconnection_trace)

lemma acceptconnection_returns:
  "returns (acceptconnection it s) \<longleftrightarrow>
     fst (it_accept it) < 0 \<or> fst (it_getfl it) < 0 \<or> fst (it_setfl it) < 0 \<or>
     fst (it_getsockopt it) < 0 \<or> it_handler_returns it"
  by (simp add: acceptconnection_def Let_def handleconnection_returns)

lemma acceptconnection_exited [simp]: "exited (acceptconnection it s) = None"
  by (simp add: acceptconnection_def Let_def)

lemma acceptconnection_fields [simp]:
  "nslcd_exitsignal (after (acceptconnection it s)) = nslcd_exitsignal s"
  "nslcd_serversocket (after (acceptconnection it s)) = nslcd_serversocket s"
  "atexit_handlers (after (acceptconnection it s)) = atexit_handlers s"
  by (simp_all add: acceptconnection_def Let_def)

lemma returns_after: "returns r \<Longrightarrow> r = Inr (after r)"
  by (cases r) simp_all

lemma acceptconnection_extends: "prefix (trace s) (trace (after (acceptconnection it s)))"
  by (simp add: acceptconnection_trace del: append.simps)

lemma main_loop_extends: "prefix (trace s) (trace (after (main_loop its s)))"
proof (induction its arbitrary: s)
  case Nil
  show ?case by simp
next
  case (Cons it its)
  show ?case
  proof (cases "nslcd_exitsignal s = 0")
    case False
    then show ?thesis by simp
  next
    case True
    let ?r = "acceptconnection it (deliver (it_signals it) s)"
    have p: "prefix (trace s) (trace (after ?r))"
      using acceptconnection_extends [of "deliver (it_signals it) s" it] by simp
    show ?thesis
    proof (cases ?r)
      case (Inl out)
      with True p show ?thesis by simp
    next
      case (Inr s1)
      with p have "prefix (trace s) (trace s1)" by simp
      moreover have "prefix (trace s1) (trace (after (main_loop its s1)))" by (rule Cons.IH)
      ultimately show ?thesis using True Inr by (auto intro: prefix_order.trans)
    qed
  qed
qed

lemma main_loop_calls_accept:
  assumes "nslcd_exitsignal s = 0"
  shows "prefix (trace s @ [Accept (nslcd_serversocket s)]) (trace (after (main_loop its s)))"
proof (cases its)
  case Nil
  with assms show ?thesis by simp
next
  case (Cons it its')
  let ?r = "acceptconnection it (deliver (it_signals it) s)"
  have p: "prefix (trace s @ [Accept (nslcd_serversocket s)]) (trace (after ?r))"
    by (simp add: acceptconnection_trace)
  show ?thesis
  proof (cases ?r)
    case (Inl out)
    with assms Cons p show ?thesis by simp
  next
    case (Inr s1)
    with p have "prefix (trace s @ [Accept (nslcd_serversocket s)]) (trace s1)" by simp
    moreover have "prefix (trace s1) (trace (after (main_loop its' s1)))"
      by (rule main_loop_extends)
    ultimately show ?thesis using assms Cons Inr by (auto intro: prefix_order.trans)
  qed
qed

text \<open>
  Claim C3. When \<^verbatim>\<open>accept\<close> fails, \<open>acceptconnection\<close> logs the failure, at debug level
  for \<^verbatim>\<open>EINTR\<close>, \<^verbatim>\<open>EAGAIN\<close> and \<^verbatim>\<open>EWOULDBLOCK\<close> and at error level for every other
  \<^verbatim>\<open>errno\<close>, and returns to the loop: the process does not exit, and the exit flag keeps
  its value. With the flag still 0 (no signal was delivered meanwhile) the next thing the
  loop does is to call \<^verbatim>\<open>accept\<close> again.
\<close>

theorem accept_failure_retries:
  assumes "fst (it_accept it) < 0"
  shows "returns (acceptconnection it s) \<and>
         exited (acceptconnection it s) = None \<and>
         trace (after (acceptconnection it s)) =
           trace s @
             [Accept (nslcd_serversocket s),
              if snd (it_accept it) = EINTR \<or> snd (it_accept it) = EAGAIN \<or>
                 snd (it_accept it) = EWOULDBLOCK
              then Log LOG_DEBUG ''debug: accept() failed (ignored): %s''
                     [AErrno (snd (it_accept it))]
              else Log LOG_ERR ''accept() failed: %s'' [AErrno (snd (it_accept it))]] \<and>
         nslcd_exitsignal (after (acceptconnection it s)) = nslcd_exitsignal s \<and>
         (nslcd_exitsignal s = 0 \<and> it_signals it = [] \<longrightarrow>
            main_loop (it # its) s = main_loop its (after (acceptconnection it s)) \<and>
            prefix (trace (after (acceptconnection it s)) @ [Accept (nslcd_serversocket s)])
              (trace (after (main_loop (it # its) s))))"
proof -
  let ?r = "acceptconnection it s"
  have ret: "returns ?r" using assms by (simp add: acceptconnection_returns)
  have tr: "trace (after ?r) =
           trace s @
             [Accept (nslcd_serversocket s),
              if snd (it_accept it) = EINTR \<or> snd (it_accept it) = EAGAIN \<or>
                 snd (it_accept it) = EWOULDBLOCK
              then Log LOG_DEBUG ''debug: accept() failed (ignored): %s''
                     [AErrno (snd (it_accept it))]
              else Log LOG_ERR ''accept() failed: %s'' [AErrno (snd (it_accept it))]]"
    using assms by (simp add: acceptconnection_trace)
  have loop: "main_loop (it # its) s = main_loop its (after ?r) \<and>
            prefix (trace (after ?r) @ [Accept (nslcd_serversocket s)])
              (trace (after (main_loop (it # its) s)))"
    if z: "nslcd_exitsignal s = 0" and n: "it_signals it = []"
  proof -
    obtain s1 where eq: "?r = Inr s1" using ret by (cases ?r) simp_all
    have step: "main_loop (it # its) s = main_loop its (after ?r)"
      using z n by (simp add: eq)
    have "nslcd_exitsignal (after ?r) = 0" using z by simp
    then have "prefix (trace (after ?r) @ [Accept (nslcd_serversocket (after ?r))])
                 (trace (after (main_loop its (after ?r))))"
      by (rule main_loop_calls_accept)
    with step show ?thesis by simp
  qed
  have ex: "exited ?r = None" by simp
  have sig: "nslcd_exitsignal (after ?r) = nslcd_exitsignal s" by simp
  from ret ex tr sig loop show ?thesis by blast
qed


theorem accept_failure_retries_witness:
  "fst (it_accept (example_iteration\<lparr> it_accept := (- 1, 4) \<rparr>)) < 0 \<and>
   returns (acceptconnection (example_iteration\<lparr> it_accept := (- 1, 4) \<rparr>) serving) \<and>
   trace (after (acceptconnection (example_iteration\<lparr> it_accept := (- 1, 4) \<rparr>) serving)) =
     [Accept 3, Log LOG_DEBUG ''debug: accept() failed (ignored): %s'' [AErrno 4]] \<and>
   prefix [Accept 3, Log LOG_DEBUG ''debug: accept() failed (ignored): %s'' [AErrno 4], Accept 3]
     (trace (after (main_loop [example_iteration\<lparr> it_accept := (- 1, 4) \<rparr>] serving))) \<and>
   fst (it_accept (example_iteration\<lparr> it_accept := (- 1, 24) \<rparr>)) < 0 \<and>
   trace (after (acceptconnection (example_iteration\<lparr> it_accept := (- 1, 24) \<rparr>) serving)) =
     [Accept 3, Log LOG_ERR ''accept() failed: %s'' [AErrno 24]] \<and>
   nslcd_exitsignal (after (acceptconnection (example_iteration\<lparr> it_accept := (- 1, 24) \<rparr>) serving)) = 0"
  using accept_failure_retries [of "example_iteration\<lparr> it_accept := (- 1, 4) \<rparr>" serving "[]"]
    accept_failure_retries [of "example_iteration\<lparr> it_accept := (- 1, 24) \<rparr>" serving "[]"]
  by (simp add: example_iteration_def serving_def initial_def EINTR_def EAGAIN_def EWOULDBLOCK_def)




subsection \<open>Decimal numbers and the PID file\<close>

lemma digit_codes: "\<forall>d<10. of_char (digit d) = (48 + d :: nat)"
  by (simp add: digit_def numeral_eq_Suc All_less_Suc)

lemma digit_code: "d < 10 \<Longrightarrow> of_char (digit d) = (48 + d :: nat)"
  using digit_codes by blast

lemma digit_in: "d < 10 \<Longrightarrow> digit d \<in> set ''0123456789''"
  unfolding digit_def by (rule nth_mem) simp

lemma dec_nat_digits: "set (dec_nat n) \<subseteq> set ''0123456789''"
proof (induction n rule: dec_nat.induct)
  case (1 n)
  show ?case
  proof (cases "n < 10")
    case True
    then show ?thesis using digit_in [of n] by (subst dec_nat.simps) simp
  next
    case False
    have "n mod 10 < 10" by simp
    then have "digit (n mod 10) \<in> set ''0123456789''" by (rule digit_in)
    with False 1 show ?thesis by (subst dec_nat.simps) simp
  qed
qed

lemma dec_value_snoc: "dec_value (cs @ [c]) = 10 * dec_value cs + (of_char c - 48)"
  by (simp add: dec_value_def)

lemma dec_value_dec_nat: "dec_value (dec_nat n) = n"
proof (induction n rule: dec_nat.induct)
  case (1 n)
  show ?case
  proof (cases "n < 10")
    case True
    then show ?thesis by (subst dec_nat.simps) (simp add: dec_value_def digit_code)
  next
    case False
    have "n mod 10 < 10" by simp
    then have "of_char (digit (n mod 10)) = (48 + n mod 10 :: nat)" by (rule digit_code)
    with False 1 show ?thesis by (subst dec_nat.simps) (simp add: dec_value_snoc)
  qed
qed

lemma sprintf_pid: "sprintf strerror pid_format [AInt p] = dec_int p @ [NL]"
  by (simp add: pid_format_def conv_def)

lemma NL_not_digit: "NL \<notin> set ''0123456789''"
  by (simp add: NL_def)

lemma exithandler_fields [simp]:
  "nslcd_exitsignal (exithandler cfg r s) = nslcd_exitsignal s"
  "nslcd_serversocket (exithandler cfg r s) = nslcd_serversocket s"
  "nslcd_debugging (exithandler cfg r s) = nslcd_debugging s"
  "atexit_handlers (exithandler cfg r s) = atexit_handlers s"
  "files (exithandler cfg r s) = files s"
  by (simp_all add: exithandler_def Let_def)

lemma exithandler_extends: "prefix (trace s) (trace (exithandler cfg r s))"
  by (simp add: exithandler_def Let_def)

lemma run_atexit_fields [simp]:
  "nslcd_exitsignal (run_atexit cfg r hs s) = nslcd_exitsignal s"
  "nslcd_serversocket (run_atexit cfg r hs s) = nslcd_serversocket s"
  "nslcd_debugging (run_atexit cfg r hs s) = nslcd_debugging s"
  "files (run_atexit cfg r hs s) = files s"
  by (induction cfg r hs s rule: run_atexit.induct; simp)+

lemma run_atexit_extends: "prefix (trace s) (trace (run_atexit cfg r hs s))"
proof (induction cfg r hs s rule: run_atexit.induct)
  case (1 cfg r s)
  show ?case by simp
next
  case (2 cfg r hs s)
  have "prefix (trace s) (trace (exithandler cfg r s))" by (rule exithandler_extends)
  with 2 show ?case by (auto intro: prefix_order.trans)
qed

lemma exit_status_exit [simp]: "exit_status (exit cfg r st s) = Some st"
  by (simp add: exit_def)

lemma exit_extends: "prefix (trace s) (trace (final (exit cfg r st s)))"
  by (simp add: exit_def run_atexit_extends)

lemma exit_keeps: "e \<in> set (trace s) \<Longrightarrow> e \<in> set (trace (final (exit cfg r st s)))"
  using exit_extends [of s cfg r st] by (auto simp: prefix_def)

lemma exit_files [simp]: "files (final (exit cfg r st s)) = files s"
  by (simp add: exit_def)

text \<open>
  Claim C7. When \<^verbatim>\<open>fopen\<close>, \<^verbatim>\<open>fprintf\<close> and \<^verbatim>\<open>fclose\<close> succeed, the PID file holds the
  decimal digits of the process's own PID followed by one newline and nothing else; the
  digits hold no newline, and read back as a decimal number they give the PID again. When
  opening, writing or closing the file fails, the error is logged and the process exits with
  status 1.
\<close>

theorem write_pidfile_roundtrip:
  "(w_fopen w = Stream \<and> \<not> w_fprintf_fails w \<and> fst (w_fclose w) = 0 \<longrightarrow>
      returns (write_pidfile cfg w (Some fn) s) \<and>
      files (after (write_pidfile cfg w (Some fn) s)) fn =
        Some (Known (dec_int (w_getpid w) @ [NL])) \<and>
      trace (after (write_pidfile cfg w (Some fn) s)) =
        trace s @ [Fopen fn ''w'', FprintfFile pid_format [AInt (w_getpid w)], Fclose]) \<and>
   (0 \<le> w_getpid w \<longrightarrow>
      set (dec_int (w_getpid w)) \<subseteq> set ''0123456789'' \<and>
      NL \<notin> set (dec_int (w_getpid w)) \<and>
      dec_value (dec_int (w_getpid w)) = nat (w_getpid w)) \<and>
   (w_fopen w = Null errno \<longrightarrow>
      exited (write_pidfile cfg w (Some fn) s) = Some 1 \<and>
      Log LOG_ERR ''cannot open pid file (%s): %s'' [AStr fn, AErrno errno]
        \<in> set (trace (after (write_pidfile cfg w (Some fn) s)))) \<and>
   (w_fopen w = Stream \<and> w_fprintf_fails w \<longrightarrow>
      exited (write_pidfile cfg w (Some fn) s) = Some 1 \<and>
      Log LOG_ERR ''error writing pid file (%s)'' [AStr fn]
        \<in> set (trace (after (write_pidfile cfg w (Some fn) s)))) \<and>
   (w_fopen w = Stream \<and> \<not> w_fprintf_fails w \<and> fst (w_fclose w) \<noteq> 0 \<longrightarrow>
      exited (write_pidfile cfg w (Some fn) s) = Some 1 \<and>
      Log LOG_ERR ''error writing pid file (%s): %s'' [AStr fn, AErrno (snd (w_fclose w))]
        \<in> set (trace (after (write_pidfile cfg w (Some fn) s))))"
proof -
  let ?r = "write_pidfile cfg w (Some fn) s"
  have len: "0 < length (dec_int (w_getpid w) @ [NL])" by simp
  have ok: "w_fopen w = Stream \<and> \<not> w_fprintf_fails w \<and> fst (w_fclose w) = 0 \<longrightarrow>
      returns ?r \<and>
      files (after ?r) fn = Some (Known (dec_int (w_getpid w) @ [NL])) \<and>
      trace (after ?r) =
        trace s @ [Fopen fn ''w'', FprintfFile pid_format [AInt (w_getpid w)], Fclose]"
    by (simp add: write_pidfile_def Let_def sprintf_pid)
  have dec: "0 \<le> w_getpid w \<longrightarrow>
      set (dec_int (w_getpid w)) \<subseteq> set ''0123456789'' \<and>
      NL \<notin> set (dec_int (w_getpid w)) \<and>
      dec_value (dec_int (w_getpid w)) = nat (w_getpid w)"
    using dec_nat_digits [of "nat (w_getpid w)"] NL_not_digit
    by (auto simp add: dec_int_def dec_value_dec_nat)
  have e1: "w_fopen w = Null errno \<longrightarrow>
      exited ?r = Some 1 \<and>
      Log LOG_ERR ''cannot open pid file (%s): %s'' [AStr fn, AErrno errno] \<in> set (trace (after ?r))"
    by (simp add: write_pidfile_def Let_def exited_def after_def exit_keeps)
  have e2: "w_fopen w = Stream \<and> w_fprintf_fails w \<longrightarrow>
      exited ?r = Some 1 \<and>
      Log LOG_ERR ''error writing pid file (%s)'' [AStr fn] \<in> set (trace (after ?r))"
    by (simp add: write_pidfile_def Let_def exited_def after_def exit_keeps)
  have e3: "w_fopen w = Stream \<and> \<not> w_fprintf_fails w \<and> fst (w_fclose w) \<noteq> 0 \<longrightarrow>
      exited ?r = Some 1 \<and>
      Log LOG_ERR ''error writing pid file (%s): %s'' [AStr fn, AErrno (snd (w_fclose w))]
        \<in> set (trace (after ?r))"
    by (simp add: write_pidfile_def Let_def sprintf_pid exited_def after_def exit_keeps)
  from ok dec e1 e2 e3 show ?thesis by blast
qed


theorem write_pidfile_roundtrip_witness:
  "w_fopen example_world = Stream \<and> fst (w_fclose example_world) = 0 \<and>
   0 \<le> w_getpid example_world \<and>
   files (after (write_pidfile example_config example_world (Some ''/var/run/nslcd.pid'') initial))
     ''/var/run/nslcd.pid'' = Some (Known (''4321'' @ [NL])) \<and>
   dec_value ''4321'' = 4321 \<and>
   w_fopen (example_world\<lparr> w_fopen := Null 13 \<rparr>) = Null 13 \<and>
   exited (write_pidfile example_config (example_world\<lparr> w_fopen := Null 13 \<rparr>)
             (Some ''/var/run/nslcd.pid'') initial) = Some 1 \<and>
   fst (w_fclose (example_world\<lparr> w_fclose := (- 1, 28) \<rparr>)) \<noteq> 0 \<and>
   exited (write_pidfile example_config (example_world\<lparr> w_fclose := (- 1, 28) \<rparr>)
             (Some ''/var/run/nslcd.pid'') initial) = Some 1"
  using write_pidfile_roundtrip
      [where w = example_world and cfg = example_config and fn = "''/var/run/nslcd.pid''"
         and s = initial]
    write_pidfile_roundtrip
      [where w = "example_world\<lparr> w_fopen := Null 13 \<rparr>" and cfg = example_config
         and fn = "''/var/run/nslcd.pid''" and s = initial and errno = 13]
    write_pidfile_roundtrip
      [where w = "example_world\<lparr> w_fclose := (- 1, 28) \<rparr>" and cfg = example_config
         and fn = "''/var/run/nslcd.pid''" and s = initial]
  by (simp add: example_world_def dec_int_def dec_nat.simps digit_def)

subsection \<open>The exit flag\<close>

lemma installed_nonzero: "signum \<in> set installed_signals \<Longrightarrow> signum \<noteq> 0"
  by (auto simp add: installed_signals_def signal_numbers)

lemma deliver_exitsignal:
  "nslcd_exitsignal (deliver sigs s) = (if sigs = [] then nslcd_exitsignal s else last sigs)"
  by (induction sigs arbitrary: s) (simp_all add: sigexit_handler_def)

lemma deliver_keeps_set:
  assumes "set sigs \<subseteq> set installed_signals" and "nslcd_exitsignal s \<noteq> 0"
  shows "nslcd_exitsignal (deliver sigs s) \<noteq> 0"
proof (cases "sigs = []")
  case True
  with assms show ?thesis by simp
next
  case False
  then have "last sigs \<in> set sigs" by simp
  with assms have "last sigs \<noteq> 0" by (auto dest: installed_nonzero)
  with False show ?thesis by (simp add: deliver_exitsignal)
qed

lemma deliver_append: "deliver (xs @ ys) s = deliver ys (deliver xs s)"
  by (induction xs arbitrary: s) simp_all

lemma main_finish_exitsignal:
  "nslcd_exitsignal (final (main_finish cfg w s)) = nslcd_exitsignal (deliver (late_signals w) s)"
  by (simp add: main_finish_def exit_def Let_def late_signals_def deliver_append)

text \<open>
  Claim C2. For a signal of the installed set (hangup, interrupt, quit, abort, broken pipe,
  terminate, user-defined 1 and 2) the handler stores the number of the signal, which is
  not 0, in the exit flag and does nothing else: the state is the old one with the flag
  replaced. Nothing resets the flag: later deliveries of installed signals leave it set (to
  the number of the last one), and \<open>acceptconnection\<close> and the end of \<open>main\<close> do not
  write it: after the end of \<open>main\<close> the flag is what the signals delivered meanwhile
  have made of it, the old value when there were none, and set when it was set before.
  With the flag set the loop makes no further call of \<^verbatim>\<open>accept\<close>; when a signal
  arrives during a pass of the loop, the loop ends as soon as that pass has returned.
\<close>

theorem exit_signal_set_and_kept:
  assumes "signum \<in> set installed_signals" and "set sigs \<subseteq> set installed_signals"
  shows
    "sigexit_handler signum s = s\<lparr> nslcd_exitsignal := signum \<rparr> \<and>
     nslcd_exitsignal (sigexit_handler signum s) = signum \<and> signum \<noteq> 0 \<and>
     trace (sigexit_handler signum s) = trace s \<and>
     nslcd_serversocket (sigexit_handler signum s) = nslcd_serversocket s \<and>
     files (sigexit_handler signum s) = files s \<and>
     (nslcd_exitsignal s \<noteq> 0 \<longrightarrow> nslcd_exitsignal (deliver sigs s) \<noteq> 0) \<and>
     (sigs \<noteq> [] \<longrightarrow> nslcd_exitsignal (deliver sigs s) = last sigs \<and> last sigs \<noteq> 0) \<and>
     nslcd_exitsignal (after (acceptconnection it s)) = nslcd_exitsignal s \<and>
     nslcd_exitsignal (final (main_finish cfg w s)) =
       nslcd_exitsignal (deliver (late_signals w) s) \<and>
     (late_signals w = [] \<longrightarrow>
        nslcd_exitsignal (final (main_finish cfg w s)) = nslcd_exitsignal s) \<and>
     (late_signals w = sigs \<and> nslcd_exitsignal s \<noteq> 0 \<longrightarrow>
        nslcd_exitsignal (final (main_finish cfg w s)) \<noteq> 0) \<and>
     (nslcd_exitsignal s \<noteq> 0 \<longrightarrow> main_loop its s = Inr s) \<and>
     (nslcd_exitsignal s = 0 \<and> it_signals it = sigs \<and> sigs \<noteq> [] \<and>
      returns (acceptconnection it (deliver sigs s)) \<longrightarrow>
        main_loop (it # its) s = Inr (after (acceptconnection it (deliver sigs s))))"
proof -
  have h: "sigexit_handler signum s = s\<lparr> nslcd_exitsignal := signum \<rparr> \<and>
     nslcd_exitsignal (sigexit_handler signum s) = signum \<and>
     trace (sigexit_handler signum s) = trace s \<and>
     nslcd_serversocket (sigexit_handler signum s) = nslcd_serversocket s \<and>
     files (sigexit_handler signum s) = files s"
    by (simp add: sigexit_handler_def)
  have nz: "signum \<noteq> 0" using assms(1) by (rule installed_nonzero)
  have keep: "nslcd_exitsignal s \<noteq> 0 \<longrightarrow> nslcd_exitsignal (deliver sigs s) \<noteq> 0"
    using deliver_keeps_set [OF assms(2)] by blast
  have lst: "sigs \<noteq> [] \<longrightarrow> nslcd_exitsignal (deliver sigs s) = last sigs \<and> last sigs \<noteq> 0"
  proof
    assume ne: "sigs \<noteq> []"
    then have "last sigs \<in> set sigs" by simp
    with assms(2) have "last sigs \<noteq> 0" by (auto dest: installed_nonzero)
    with ne show "nslcd_exitsignal (deliver sigs s) = last sigs \<and> last sigs \<noteq> 0"
      by (simp add: deliver_exitsignal)
  qed
  have acc: "nslcd_exitsignal (after (acceptconnection it s)) = nslcd_exitsignal s" by simp
  have fin: "nslcd_exitsignal (final (main_finish cfg w s)) =
       nslcd_exitsignal (deliver (late_signals w) s)"
    by (rule main_finish_exitsignal)
  have fin0: "late_signals w = [] \<longrightarrow>
        nslcd_exitsignal (final (main_finish cfg w s)) = nslcd_exitsignal s"
    by (simp add: main_finish_exitsignal)
  have fin1: "late_signals w = sigs \<and> nslcd_exitsignal s \<noteq> 0 \<longrightarrow>
        nslcd_exitsignal (final (main_finish cfg w s)) \<noteq> 0"
    using keep by (auto simp add: main_finish_exitsignal)
  have stop: "nslcd_exitsignal s \<noteq> 0 \<longrightarrow> main_loop its s = Inr s"
    by (cases its) simp_all
  have cycle: "nslcd_exitsignal s = 0 \<and> it_signals it = sigs \<and> sigs \<noteq> [] \<and>
      returns (acceptconnection it (deliver sigs s)) \<longrightarrow>
        main_loop (it # its) s = Inr (after (acceptconnection it (deliver sigs s)))"
  proof
    assume a: "nslcd_exitsignal s = 0 \<and> it_signals it = sigs \<and> sigs \<noteq> [] \<and>
      returns (acceptconnection it (deliver sigs s))"
    let ?r = "acceptconnection it (deliver sigs s)"
    from a obtain s1 where r: "?r = Inr s1" by (cases ?r) simp_all
    have "nslcd_exitsignal (after ?r) = nslcd_exitsignal (deliver sigs s)" by simp
    with lst a r have "nslcd_exitsignal s1 \<noteq> 0" by simp
    then have "main_loop its s1 = Inr s1" by (cases its) simp_all
    with a r show "main_loop (it # its) s = Inr (after ?r)" by simp
  qed
  from h nz keep lst acc fin fin0 fin1 stop cycle show ?thesis by blast
qed

theorem exit_signal_set_and_kept_witness:
  "SIGTERM \<in> set installed_signals \<and> set [SIGHUP, SIGTERM] \<subseteq> set installed_signals \<and>
   nslcd_exitsignal (sigexit_handler SIGTERM serving) = 15 \<and>
   nslcd_exitsignal (deliver [SIGHUP, SIGTERM] serving) = 15 \<and>
   nslcd_exitsignal (deliver [SIGHUP, SIGTERM] (sigexit_handler SIGTERM serving)) \<noteq> 0 \<and>
   late_signals (example_world\<lparr> w_signals_after_loop := [SIGHUP, SIGTERM] \<rparr>) = [SIGHUP, SIGTERM] \<and>
   nslcd_exitsignal (final (main_finish example_config
       (example_world\<lparr> w_signals_after_loop := [SIGHUP, SIGTERM] \<rparr>)
       (sigexit_handler SIGTERM serving))) = 15 \<and>
   late_signals example_world = [] \<and>
   nslcd_exitsignal (final (main_finish example_config example_world
       (sigexit_handler SIGTERM serving))) = 15 \<and>
   returns (acceptconnection (example_iteration\<lparr> it_signals := [SIGHUP, SIGTERM] \<rparr>)
              (deliver [SIGHUP, SIGTERM] serving)) \<and>
   trace (after (main_loop [example_iteration\<lparr> it_signals := [SIGHUP, SIGTERM] \<rparr>, example_iteration]
                   serving)) =
     [Accept 3, FcntlGetfl 5, FcntlSetfl 5 2, GetsockoptPeercred 5,
      Log LOG_INFO ''connection from pid=%d uid=%d gid=%d'' [AInt 100, AInt 1000, AInt 1000],
      HandleRequest 5]"
  using exit_signal_set_and_kept
      [where signum = SIGTERM and sigs = "[SIGHUP, SIGTERM]" and s = serving
         and it = "example_iteration\<lparr> it_signals := [SIGHUP, SIGTERM] \<rparr>"
         and its = "[example_iteration]" and cfg = example_config and w = example_world]
    exit_signal_set_and_kept
      [where signum = SIGTERM and sigs = "[SIGHUP, SIGTERM]" and s = "sigexit_handler SIGTERM serving"
         and it = "example_iteration\<lparr> it_signals := [SIGHUP, SIGTERM] \<rparr>"
         and its = "[example_iteration]" and cfg = example_config
         and w = "example_world\<lparr> w_signals_after_loop := [SIGHUP, SIGTERM] \<rparr>"]
    exit_signal_set_and_kept
      [where signum = SIGTERM and sigs = "[SIGHUP, SIGTERM]" and s = "sigexit_handler SIGTERM serving"
         and it = "example_iteration\<lparr> it_signals := [SIGHUP, SIGTERM] \<rparr>"
         and its = "[example_iteration]" and cfg = example_config and w = example_world]
  by (simp add: installed_signals_def signal_numbers example_iteration_def serving_def
      initial_def sigexit_handler_def acceptconnection_def handleconnection_def Let_def
      O_NONBLOCK_def late_signals_def example_world_def)

subsection \<open>Leaving the loop\<close>

lemma sprintf_caught:
  "sprintf strerror ''caught signal %s (%d), shutting down'' [AStr x, AInt n] =
     ''caught signal '' @ x @ '' ('' @ dec_int n @ ''), shutting down''"
  by (simp add: conv_def)

lemma main_loop_leaves: "main_loop its s0 = Inr s \<Longrightarrow> nslcd_exitsignal s \<noteq> 0"
  by (induction its arbitrary: s0) (auto split: if_splits sum.splits)

lemma signame_installed:
  "map signame installed_signals =
     [''SIGHUP'', ''SIGINT'', ''SIGQUIT'', ''SIGABRT'', ''SIGPIPE'', ''SIGTERM'', ''SIGUSR1'',
      ''SIGUSR2'']"
  by (simp add: installed_signals_def signame_def signal_numbers)

lemma signame_known:
  "map signame known_signals =
     [''SIGHUP'', ''SIGINT'', ''SIGQUIT'', ''SIGILL'', ''SIGABRT'', ''SIGFPE'', ''SIGKILL'',
      ''SIGSEGV'', ''SIGPIPE'', ''SIGALRM'', ''SIGTERM'', ''SIGUSR1'', ''SIGUSR2'', ''SIGCHLD'',
      ''SIGCONT'', ''SIGSTOP'', ''SIGTSTP'', ''SIGTTIN'', ''SIGTTOU'', ''SIGBUS'', ''SIGPOLL'',
      ''SIGPROF'', ''SIGSYS'', ''SIGTRAP'', ''SIGURG'', ''SIGVTALRM'', ''SIGXCPU'', ''SIGXFSZ'']"
  by (simp add: known_signals_def signame_def signal_numbers)

lemma signame_unknown: "m \<notin> set known_signals \<Longrightarrow> signame m = ''UNKNOWN''"
  by (simp add: known_signals_def signame_def)

lemma deliver_last:
  "nslcd_exitsignal (deliver sigs s) = last (nslcd_exitsignal s # sigs)"
  by (simp add: deliver_exitsignal)

text \<open>
  Claim C8, as stated, fails. The handler replaces the flag at every delivery and the end
  of \<open>main\<close> reads the flag where it stands, so the line reports the last signal
  delivered, not the one that ended the loop: when \<^verbatim>\<open>SIGHUP\<close> has ended the loop and
  \<^verbatim>\<open>SIGTERM\<close> arrives before the end of \<open>main\<close> reads the flag, the line names
  \<^verbatim>\<open>SIGTERM\<close> and 15. And a \<^verbatim>\<open>SIGTERM\<close> that arrives between the two reads for the
  arguments of the log call gives the name of one signal with the number of the other,
  \<^verbatim>\<open>SIGHUP\<close> and 15.
\<close>

theorem shutdown_reports_signal_counterexample:
  "nslcd_exitsignal (after (main_loop [example_iteration\<lparr> it_signals := [SIGHUP] \<rparr>] serving)) =
     SIGHUP \<and>
   last (trace (final (main_finish example_config
           (example_world\<lparr> w_signals_after_loop := [SIGTERM] \<rparr>)
           (after (main_loop [example_iteration\<lparr> it_signals := [SIGHUP] \<rparr>] serving))))) =
     Log LOG_INFO ''caught signal %s (%d), shutting down'' [AStr ''SIGTERM'', AInt 15] \<and>
   last (trace (final (main_finish example_config
           (example_world\<lparr> w_signals_between_reads := [SIGTERM] \<rparr>)
           (after (main_loop [example_iteration\<lparr> it_signals := [SIGHUP] \<rparr>] serving))))) =
     Log LOG_INFO ''caught signal %s (%d), shutting down'' [AStr ''SIGHUP'', AInt 15]"
  by (simp add: main_finish_def Let_def exit_def example_world_def example_iteration_def
      serving_def initial_def acceptconnection_def handleconnection_def sigexit_handler_def
      O_NONBLOCK_def signame_def signal_numbers)

text \<open>
  Claim C8, amended. The loop is left only with the exit flag set. When no signal is
  delivered between the two reads of the flag for the arguments of the log call (nothing
  is said here of a delivery between them), \<open>main\<close> logs the format
  \<^verbatim>\<open>caught signal %s (%d), shutting down\<close> with the name and the number of one signal:
  the number the flag holds then, that of the last signal delivered so far, which is the
  signal that ended the loop when none has come after it. The line renders as
  \<^verbatim>\<open>caught signal NAME (N), shutting down\<close>. Each installed signal, and each signal of
  the \<^verbatim>\<open>switch\<close>, has its own name; a number outside the known signals has the name
  \<^verbatim>\<open>UNKNOWN\<close>. The process then exits with status 1.
\<close>

theorem shutdown_reports_signal:
  assumes "returns (main_loop its s0)"
    and "set (w_signals_after_loop w @ w_signals_before_log w) \<subseteq> set installed_signals"
    and "w_signals_between_reads w = []"
  shows
    "nslcd_exitsignal (after (main_loop its s0)) \<noteq> 0 \<and>
     logged_signal w (after (main_loop its s0)) \<noteq> 0 \<and>
     logged_signal w (after (main_loop its s0)) =
       last (nslcd_exitsignal (after (main_loop its s0)) #
             w_signals_after_loop w @ w_signals_before_log w) \<and>
     (w_signals_after_loop w = [] \<and> w_signals_before_log w = [] \<longrightarrow>
        logged_signal w (after (main_loop its s0)) = nslcd_exitsignal (after (main_loop its s0))) \<and>
     main_finish cfg w (after (main_loop its s0)) =
       exit cfg (w_close w) 1
         (emit (Log LOG_INFO ''caught signal %s (%d), shutting down''
                  [AStr (signame (logged_signal w (after (main_loop its s0)))),
                   AInt (logged_signal w (after (main_loop its s0)))])
            (deliver (w_signals_after_loop w @ w_signals_before_log w)
               (after (main_loop its s0)))) \<and>
     exit_status (main_finish cfg w (after (main_loop its s0))) = Some 1 \<and>
     sprintf strerror ''caught signal %s (%d), shutting down'' [AStr (signame m), AInt m] =
       ''caught signal '' @ signame m @ '' ('' @ dec_int m @ ''), shutting down'' \<and>
     map signame installed_signals =
       [''SIGHUP'', ''SIGINT'', ''SIGQUIT'', ''SIGABRT'', ''SIGPIPE'', ''SIGTERM'', ''SIGUSR1'',
        ''SIGUSR2''] \<and>
     map signame known_signals =
       [''SIGHUP'', ''SIGINT'', ''SIGQUIT'', ''SIGILL'', ''SIGABRT'', ''SIGFPE'', ''SIGKILL'',
        ''SIGSEGV'', ''SIGPIPE'', ''SIGALRM'', ''SIGTERM'', ''SIGUSR1'', ''SIGUSR2'', ''SIGCHLD'',
        ''SIGCONT'', ''SIGSTOP'', ''SIGTSTP'', ''SIGTTIN'', ''SIGTTOU'', ''SIGBUS'', ''SIGPOLL'',
        ''SIGPROF'', ''SIGSYS'', ''SIGTRAP'', ''SIGURG'', ''SIGVTALRM'', ''SIGXCPU'', ''SIGXFSZ''] \<and>
     (m \<notin> set known_signals \<longrightarrow> signame m = ''UNKNOWN'')"
proof -
  let ?s = "after (main_loop its s0)"
  let ?d1 = "w_signals_after_loop w"
  let ?d2 = "w_signals_before_log w"
  let ?n = "logged_signal w ?s"
  have 1: "nslcd_exitsignal ?s \<noteq> 0"
  proof -
    from assms(1) obtain s where "main_loop its s0 = Inr s"
      by (cases "main_loop its s0") simp_all
    then show ?thesis using main_loop_leaves [of its s0 s] by simp
  qed
  have d1: "set ?d1 \<subseteq> set installed_signals" and d2: "set ?d2 \<subseteq> set installed_signals"
    using assms(2) by simp_all
  have t: "nslcd_exitsignal (deliver ?d1 ?s) \<noteq> 0"
    using d1 1 by (rule deliver_keeps_set)
  have 2: "?n \<noteq> 0"
    unfolding logged_signal_def using assms(2) 1 by (rule deliver_keeps_set)
  have 3: "?n = last (nslcd_exitsignal ?s # ?d1 @ ?d2)"
    unfolding logged_signal_def by (rule deliver_last)
  have 4: "?d1 = [] \<and> ?d2 = [] \<longrightarrow> ?n = nslcd_exitsignal ?s"
    by (simp add: logged_signal_def)
  have 5: "main_finish cfg w ?s =
       exit cfg (w_close w) 1
         (emit (Log LOG_INFO ''caught signal %s (%d), shutting down''
                  [AStr (signame ?n), AInt ?n])
            (deliver (?d1 @ ?d2) ?s))"
    using t assms(3) by (simp add: main_finish_def Let_def logged_signal_def deliver_append)
  have 6: "exit_status (main_finish cfg w ?s) = Some 1"
    by (simp add: main_finish_def Let_def)
  have 7: "sprintf strerror ''caught signal %s (%d), shutting down'' [AStr (signame m), AInt m] =
       ''caught signal '' @ signame m @ '' ('' @ dec_int m @ ''), shutting down''"
    by (rule sprintf_caught)
  have 8: "m \<notin> set known_signals \<longrightarrow> signame m = ''UNKNOWN''"
    by (simp add: signame_unknown)
  from 1 2 3 4 5 6 7 8 signame_installed signame_known show ?thesis by blast
qed

theorem shutdown_reports_signal_witness:
  "returns (main_loop [example_iteration\<lparr> it_signals := [SIGTERM] \<rparr>] serving) \<and>
   set (w_signals_after_loop example_world @ w_signals_before_log example_world)
     \<subseteq> set installed_signals \<and>
   w_signals_between_reads example_world = [] \<and>
   trace (final (main_finish example_config example_world
            (after (main_loop [example_iteration\<lparr> it_signals := [SIGTERM] \<rparr>] serving)))) =
     [Accept 3, FcntlGetfl 5, FcntlSetfl 5 2, GetsockoptPeercred 5,
      Log LOG_INFO ''connection from pid=%d uid=%d gid=%d'' [AInt 100, AInt 1000, AInt 1000],
      HandleRequest 5,
      Log LOG_INFO ''caught signal %s (%d), shutting down'' [AStr ''SIGTERM'', AInt 15]] \<and>
   exit_status (main_finish example_config example_world
            (after (main_loop [example_iteration\<lparr> it_signals := [SIGTERM] \<rparr>] serving))) = Some 1 \<and>
   set (w_signals_after_loop (example_world\<lparr> w_signals_after_loop := [SIGUSR1] \<rparr>) @
        w_signals_before_log (example_world\<lparr> w_signals_after_loop := [SIGUSR1] \<rparr>))
     \<subseteq> set installed_signals \<and>
   logged_signal (example_world\<lparr> w_signals_after_loop := [SIGUSR1] \<rparr>)
     (after (main_loop [example_iteration\<lparr> it_signals := [SIGTERM] \<rparr>] serving)) = 10 \<and>
   last (trace (final (main_finish example_config
           (example_world\<lparr> w_signals_after_loop := [SIGUSR1] \<rparr>)
           (after (main_loop [example_iteration\<lparr> it_signals := [SIGTERM] \<rparr>] serving))))) =
     Log LOG_INFO ''caught signal %s (%d), shutting down'' [AStr ''SIGUSR1'', AInt 10] \<and>
   sprintf (\<lambda>e. []) ''caught signal %s (%d), shutting down'' [AStr (signame 15), AInt 15] =
     ''caught signal SIGTERM (15), shutting down'' \<and>
   64 \<notin> set known_signals \<and>
   sprintf (\<lambda>e. []) ''caught signal %s (%d), shutting down'' [AStr (signame 64), AInt 64] =
     ''caught signal UNKNOWN (64), shutting down''"
proof -
  let ?its = "[example_iteration\<lparr> it_signals := [SIGTERM] \<rparr>]"
  let ?w = "example_world\<lparr> w_signals_after_loop := [SIGUSR1] \<rparr>"
  have r: "returns (main_loop ?its serving)"
    by (simp add: example_iteration_def serving_def initial_def acceptconnection_def
        handleconnection_def Let_def sigexit_handler_def signal_numbers)
  have a: "set (w_signals_after_loop example_world @ w_signals_before_log example_world)
             \<subseteq> set installed_signals"
    and b: "w_signals_between_reads example_world = []"
    and c: "set (w_signals_after_loop ?w @ w_signals_before_log ?w) \<subseteq> set installed_signals"
    and d: "w_signals_between_reads ?w = []"
    by (simp_all add: example_world_def installed_signals_def)
  show ?thesis
    using r a b c
      shutdown_reports_signal [OF r a b, where cfg = example_config and m = 15
        and strerror = "\<lambda>e. []"]
      shutdown_reports_signal [OF r c d, where cfg = example_config and m = 64
        and strerror = "\<lambda>e. []"]
    by (simp add: example_iteration_def serving_def initial_def example_world_def
        acceptconnection_def handleconnection_def Let_def sigexit_handler_def O_NONBLOCK_def
        exit_def signal_numbers signame_def known_signals_def dec_int_def dec_nat.simps
        digit_def logged_signal_def)
qed

subsection \<open>Whole runs of the main program\<close>

lemma idcalls_simps [simp]:
  "idcalls [] = []"
  "idcalls (xs @ ys) = idcalls xs @ idcalls ys"
  "idcalls (e # xs) = (if is_idcall e then e # idcalls xs else idcalls xs)"
  by (simp_all add: idcalls_def)

lemma bails_simps [simp]:
  "bails cfg [] = 0"
  "bails cfg (xs @ ys) = bails cfg xs + bails cfg ys"
  "bails cfg (e # xs) = (if e = bailing_out cfg then Suc (bails cfg xs) else bails cfg xs)"
  by (simp_all add: bails_def)

lemma not_bailing [simp]:
  "Fprintf fp fmt args \<noteq> bailing_out cfg" "GetoptDiagnostic a \<noteq> bailing_out cfg"
  "LogSetDefaultLevel l \<noteq> bailing_out cfg" "LogStartLogging \<noteq> bailing_out cfg"
  "Daemon x y \<noteq> bailing_out cfg" "Umask m \<noteq> bailing_out cfg" "Atexit \<noteq> bailing_out cfg"
  "Fopen fn md \<noteq> bailing_out cfg" "FprintfFile fmt args \<noteq> bailing_out cfg"
  "Fclose \<noteq> bailing_out cfg" "ServerOpen \<noteq> bailing_out cfg" "Setgroups \<noteq> bailing_out cfg"
  "Setgid g \<noteq> bailing_out cfg" "Setuid u \<noteq> bailing_out cfg" "Sigaction n \<noteq> bailing_out cfg"
  "Accept fd \<noteq> bailing_out cfg" "FcntlGetfl fd \<noteq> bailing_out cfg"
  "FcntlSetfl fd j \<noteq> bailing_out cfg" "GetsockoptPeercred fd \<noteq> bailing_out cfg"
  "HandleRequest fd \<noteq> bailing_out cfg" "Close fd \<noteq> bailing_out cfg"
  "Log LOG_ERR fmt args \<noteq> bailing_out cfg" "Log LOG_WARNING fmt args \<noteq> bailing_out cfg"
  "Log LOG_DEBUG fmt args \<noteq> bailing_out cfg"
  by (simp_all add: bailing_out_def)

lemma exithandler_marks:
  "idcalls (trace (exithandler cfg r s)) = idcalls (trace s)"
  "bails cfg (trace (exithandler cfg r s)) = Suc (bails cfg (trace s))"
  by (simp_all add: exithandler_def Let_def) (simp_all add: bailing_out_def)

lemma run_atexit_marks:
  "idcalls (trace (run_atexit cfg r hs s)) = idcalls (trace s)"
  "bails cfg (trace (run_atexit cfg r hs s)) = bails cfg (trace s) + length hs"
  by (induction cfg r hs s rule: run_atexit.induct; simp add: exithandler_marks)+

lemma exit_ended:
  "underway cfg g k s \<Longrightarrow> prefix g [Setgroups] \<Longrightarrow> k \<le> 1 \<Longrightarrow> ended cfg (exit cfg r st s)"
  by (simp add: underway_def ended_def exit_def run_atexit_marks)

lemma underway_emit:
  "underway cfg g k s \<Longrightarrow> \<not> is_idcall e \<Longrightarrow> e \<noteq> bailing_out cfg \<Longrightarrow> underway cfg g k (emit e s)"
  by (simp add: underway_def)

lemma display_usage_underway:
  "underway cfg g k s \<Longrightarrow> underway cfg g k (display_usage cfg fp prog s)"
  by (simp add: display_usage_def Let_def underway_emit)

lemma display_version_underway:
  "underway cfg g k s \<Longrightarrow> underway cfg g k (display_version cfg fp s)"
  by (simp add: display_version_def Let_def underway_emit)

lemma underway_debugging:
  "underway cfg g k s \<Longrightarrow> underway cfg g k (s\<lparr> nslcd_debugging := d \<rparr>)"
  by (simp add: underway_def)

lemma parse_options_step:
  "underway cfg g k s \<Longrightarrow> prefix g [Setgroups] \<Longrightarrow> k \<le> 1 \<Longrightarrow>
   step cfg g k (parse_options cfg r prog rs s)"
proof (induction rs arbitrary: s)
  case Nil
  then show ?case by (simp add: step_def)
next
  case (Cons x rs)
  let ?s0 = "case x of Diagnosed a \<Rightarrow> emit (GetoptDiagnostic a) s | Returned c \<Rightarrow> s"
  have u0: "underway cfg g k ?s0"
    using Cons.prems(1) by (cases x) (simp_all add: underway_emit)
  have d: "step cfg g k (parse_options cfg r prog rs
             (emit (LogSetDefaultLevel LOG_DEBUG) (?s0\<lparr> nslcd_debugging := 1 \<rparr>)))"
    using u0 Cons.prems(2,3) by (intro Cons.IH underway_emit underway_debugging) simp_all
  have h: "ended cfg (exit cfg r 0 (display_usage cfg Stdout prog ?s0))"
    using u0 Cons.prems(2,3) by (intro exit_ended display_usage_underway)
  have v: "ended cfg (exit cfg r 0 (display_version cfg Stdout ?s0))"
    using u0 Cons.prems(2,3) by (intro exit_ended display_version_underway)
  have e: "ended cfg (exit cfg r 1 (emit (Fprintf Stderr usage_hint [AStr prog]) ?s0))"
    using u0 Cons.prems(2,3) by (intro exit_ended underway_emit) simp_all
  show ?case using d h v e by (simp add: Let_def step_def)
qed

lemma parse_cmdline_step:
  assumes "underway cfg g k s" and "prefix g [Setgroups]" and "k \<le> 1"
  shows "step cfg g k (parse_cmdline cfg r posix prog args s)"
proof -
  let ?p = "parse_options cfg r prog (getopt_long posix NSLCD_OPTIONSTRING nslcd_options args) s"
  have p: "step cfg g k ?p" using assms by (rule parse_options_step)
  show ?thesis
  proof (cases ?p)
    case (Inl out)
    with p show ?thesis by (simp add: parse_cmdline_def step_def)
  next
    case (Inr s1)
    with p have u: "underway cfg g k s1" by (simp add: step_def)
    have "ended cfg (exit cfg r 1
                      (emit (Fprintf Stderr usage_hint [AStr prog])
                         (emit (Fprintf Stderr unrecognized [AStr prog, AStr a]) s1)))" for a
      using u assms(2,3) by (intro exit_ended underway_emit) simp_all
    with Inr u show ?thesis by (simp add: parse_cmdline_def step_def split: list.splits)
  qed
qed


lemma step_bind:
  "step cfg g k r \<Longrightarrow> (\<And>s. underway cfg g k s \<Longrightarrow> step cfg g' k' (f s)) \<Longrightarrow>
   step cfg g' k' (case r of Inl out \<Rightarrow> Inl out | Inr s \<Rightarrow> f s)"
  by (cases r) (simp_all add: step_def)

lemma step_end:
  "step cfg g k r \<Longrightarrow> (\<And>s. underway cfg g k s \<Longrightarrow> ended cfg (f s)) \<Longrightarrow>
   ended cfg (case r of Inl out \<Rightarrow> out | Inr s \<Rightarrow> f s)"
  by (cases r) (simp_all add: step_def)

lemma underway_files:
  "underway cfg g k s \<Longrightarrow> underway cfg g k (s\<lparr> files := f \<rparr>)"
  by (simp add: underway_def)

lemma underway_socket:
  "underway cfg g k s \<Longrightarrow> underway cfg g k (s\<lparr> nslcd_serversocket := fd \<rparr>)"
  by (simp add: underway_def)

lemma underway_register:
  "underway cfg g 0 s \<Longrightarrow>
   underway cfg g 1 (s\<lparr> atexit_handlers := Exithandler # atexit_handlers s \<rparr>)"
  by (simp add: underway_def)

lemma underway_mono: "underway cfg g k s \<Longrightarrow> k \<le> k' \<Longrightarrow> underway cfg g k' s"
  by (simp add: underway_def)

lemma write_pidfile_step:
  assumes "underway cfg g k s" and "prefix g [Setgroups]" and "k \<le> 1"
  shows "step cfg g k (write_pidfile cfg w filename s)"
proof (cases filename)
  case None
  with assms show ?thesis by (simp add: write_pidfile_def step_def)
next
  case (Some fn)
  have e: "ended cfg (exit cfg r st s')" if "underway cfg g k s'" for r st s'
    using that assms(2,3) by (rule exit_ended)
  show ?thesis
    using assms(1) Some
    by (auto simp add: write_pidfile_def Let_def step_def split: fopen_result.splits
        intro!: e underway_emit underway_files)
qed

lemma main_setup_step:
  assumes "underway cfg g 0 s" and "prefix g [Setgroups]"
  shows "step cfg g 1 (main_setup cfg w s)"
proof -
  have e: "ended cfg (exit cfg r st s')" if "underway cfg g 1 s'" for r st s'
    using that assms(2) by (rule exit_ended) simp
  let ?s1 = "if nslcd_debugging s = 0 then emit (Daemon 0 0) s else s"
  let ?s2 = "emit (Umask 18) ?s1"
  let ?s3 = "if nslcd_debugging s = 0 then emit LogStartLogging ?s2 else ?s2"
  let ?s4 = "emit (Log LOG_INFO ''version %s starting'' [AStr (VERSION cfg)]) ?s3"
  let ?s5 = "emit Atexit
                    (if w_atexit w = 0
                     then ?s4\<lparr> atexit_handlers := Exithandler # atexit_handlers ?s4 \<rparr>
                     else ?s4)"
  have u1: "underway cfg g 0 ?s1" using assms(1) by (simp add: underway_emit)
  have u3: "underway cfg g 0 ?s3"
    using assms(1) by (cases "nslcd_debugging s = 0") (simp_all add: underway_emit)
  have u4: "underway cfg g 0 ?s4"
    using u3 by (rule underway_emit) (simp_all add: bailing_out_def)
  have "underway cfg g 1 (if w_atexit w = 0
                     then ?s4\<lparr> atexit_handlers := Exithandler # atexit_handlers ?s4 \<rparr>
                     else ?s4)"
  proof (cases "w_atexit w = 0")
    case True
    show ?thesis by (subst if_P [OF True]) (rule underway_register [OF u4])
  next
    case False
    show ?thesis by (subst if_not_P [OF False]) (rule underway_mono [OF u4], simp)
  qed
  then have u5: "underway cfg g 1 ?s5" by (rule underway_emit) simp_all
  have p: "step cfg g 1 (write_pidfile cfg w (NSLCD_PIDFILE cfg) ?s5)"
    using u5 assms(2) by (rule write_pidfile_step) simp
  have d: "ended cfg (exit cfg (w_close w) 1
               (emit (Log LOG_ERR ''unable to daemonize: %s'' [AErrno (snd (w_daemon w))]) ?s1))"
    using u1 by (intro e underway_emit) (auto intro: underway_mono)
  have o: "step cfg g 1
             (case w_server_open w of
                Failed status \<Rightarrow> Inl (exit cfg (w_close w) status (emit ServerOpen s6))
              | Opened fd \<Rightarrow> Inr ((emit ServerOpen s6)\<lparr> nslcd_serversocket := fd \<rparr>))"
    if "underway cfg g 1 s6" for s6
    using that
    by (auto simp add: step_def split: server_open_result.splits
        intro!: e underway_emit underway_socket)
  have t: "step cfg g 1
          (case write_pidfile cfg w (NSLCD_PIDFILE cfg) ?s5 of
             Inl out \<Rightarrow> Inl out
           | Inr s6 \<Rightarrow>
               (case w_server_open w of
                  Failed status \<Rightarrow> Inl (exit cfg (w_close w) status (emit ServerOpen s6))
                | Opened fd \<Rightarrow> Inr ((emit ServerOpen s6)\<lparr> nslcd_serversocket := fd \<rparr>)))"
    using p o by (rule step_bind)
  show ?thesis
    unfolding main_setup_def Let_def
  proof (rule if_split [where P = "step cfg g 1", THEN iffD2], intro conjI impI)
    show "step cfg g 1
            (Inl (exit cfg (w_close w) 1
               (emit (Log LOG_ERR ''unable to daemonize: %s'' [AErrno (snd (w_daemon w))]) ?s1)))"
      using d by (simp only: step_def sum.case)
  next
    show "step cfg g 1
          (case write_pidfile cfg w (NSLCD_PIDFILE cfg) ?s5 of
             Inl out \<Rightarrow> Inl out
           | Inr s6 \<Rightarrow>
               (case w_server_open w of
                  Failed status \<Rightarrow> Inl (exit cfg (w_close w) status (emit ServerOpen s6))
                | Opened fd \<Rightarrow> Inr ((emit ServerOpen s6)\<lparr> nslcd_serversocket := fd \<rparr>)))"
      by (rule t)
  qed
qed

lemma main_privileges_step:
  assumes "underway cfg [] k s" and "k \<le> 1"
  shows "step cfg (if HAVE_SETGROUPS cfg then [Setgroups] else []) k
           (main_privileges cfg w (- 1) (- 1) s)"
  using assms by (simp add: main_privileges_def Let_def step_def underway_def)

lemma install_sighandler_step:
  assumes "underway cfg g k s" and "prefix g [Setgroups]" and "k \<le> 1"
  shows "step cfg g k (install_sighandler cfg w signum s)"
  using assms
  by (auto simp add: install_sighandler_def Let_def step_def intro!: exit_ended underway_emit)

lemma install_sighandlers_step:
  assumes "underway cfg g k s" and "prefix g [Setgroups]" and "k \<le> 1"
  shows "step cfg g k (install_sighandlers cfg w sigs s)"
  using assms(1)
proof (induction sigs arbitrary: s)
  case Nil
  then show ?case by (simp add: step_def)
next
  case (Cons signum sigs)
  have "step cfg g k (install_sighandler cfg w signum s)"
    using Cons.prems assms(2,3) by (rule install_sighandler_step)
  then have "step cfg g k
               (case install_sighandler cfg w signum s of
                  Inl out \<Rightarrow> Inl out
                | Inr s1 \<Rightarrow> install_sighandlers cfg w sigs s1)"
    using Cons.IH by (rule step_bind)
  then show ?case by simp
qed

lemma deliver_underway: "underway cfg g k s \<Longrightarrow> underway cfg g k (deliver sigs s)"
  by (simp add: underway_def)

lemma acceptconnection_idcalls:
  "idcalls (trace (after (acceptconnection it s))) = idcalls (trace s)"
  by (simp add: acceptconnection_trace closing_def)

lemma acceptconnection_bails:
  "bails cfg (trace (after (acceptconnection it s))) = bails cfg (trace s)"
  by (simp add: acceptconnection_trace closing_def) (simp add: bailing_out_def)

lemma acceptconnection_underway:
  "underway cfg g k s \<Longrightarrow> underway cfg g k (after (acceptconnection it s))"
  by (simp add: underway_def acceptconnection_idcalls acceptconnection_bails)

lemma underway_ended_blocked:
  "underway cfg g k s \<Longrightarrow> prefix g [Setgroups] \<Longrightarrow> ended cfg (Blocked s)"
  by (simp add: underway_def ended_def)

lemma acceptconnection_step:
  assumes "underway cfg g k s" and "prefix g [Setgroups]"
  shows "step cfg g k (acceptconnection it s)"
proof -
  have u: "underway cfg g k (after (acceptconnection it s))"
    using assms(1) by (rule acceptconnection_underway)
  have x: "exited (acceptconnection it s) = None" by simp
  show ?thesis
  proof (cases "acceptconnection it s")
    case (Inr s1)
    with u show ?thesis by (simp add: step_def)
  next
    case (Inl out)
    with x obtain s1 where "out = Blocked s1" by (cases out) simp_all
    with Inl u assms(2) show ?thesis by (simp add: step_def underway_ended_blocked)
  qed
qed

lemma main_loop_step:
  assumes "prefix g [Setgroups]"
  shows "underway cfg g k s \<Longrightarrow> step cfg g k (main_loop its s)"
proof (induction its arbitrary: s)
  case Nil
  then show ?case
    using assms by (auto simp add: step_def intro!: underway_ended_blocked underway_emit)
next
  case (Cons it its)
  have "step cfg g k (acceptconnection it (deliver (it_signals it) s))"
    using Cons.prems assms by (intro acceptconnection_step deliver_underway)
  then have "step cfg g k
               (case acceptconnection it (deliver (it_signals it) s) of
                  Inl out \<Rightarrow> Inl out
                | Inr s1 \<Rightarrow> main_loop its s1)"
    using Cons.IH by (rule step_bind)
  then show ?case using Cons.prems by (simp add: step_def)
qed

lemma main_finish_ended:
  assumes "underway cfg g k s" and "prefix g [Setgroups]" and "k \<le> 1"
  shows "ended cfg (main_finish cfg w s)"
  using assms
  by (auto simp add: main_finish_def Let_def bailing_out_def
      intro!: exit_ended underway_emit deliver_underway)

lemma initial_underway: "underway cfg [] 0 initial"
  by (simp add: underway_def initial_def)

lemma main_ended: "ended cfg (main cfg w)"
proof -
  let ?G = "if HAVE_SETGROUPS cfg then [Setgroups] else []"
  have G: "prefix ?G [Setgroups]" by simp
  have 1: "step cfg [] 0
             (parse_cmdline cfg (w_close w) (w_posixly_correct w) (w_prog w) (w_args w) initial)"
    by (rule parse_cmdline_step) (simp_all add: initial_underway)
  have 2: "step cfg [] 1 (main_setup cfg w s)" if "underway cfg [] 0 s" for s
    using that by (rule main_setup_step) simp
  have 3: "step cfg ?G 1 (main_privileges cfg w (- 1) (- 1) s)" if "underway cfg [] 1 s" for s
    using that by (rule main_privileges_step) simp
  have 4: "step cfg ?G 1 (install_sighandlers cfg w sigs s)" if "underway cfg ?G 1 s" for s sigs
    using that G by (rule install_sighandlers_step) simp
  have 5: "step cfg ?G 1 (main_loop its s)" if "underway cfg ?G 1 s" for s its
    using G that by (rule main_loop_step)
  have 6: "ended cfg (main_finish cfg w s)" if "underway cfg ?G 1 s" for s
    using that G by (rule main_finish_ended) simp
  have 7: "underway cfg ?G 1 (emit (Log LOG_INFO ''accepting connections'' [])
                 (deliver (w_early_signals w) s))" if "underway cfg ?G 1 s" for s
    using that by (intro underway_emit deliver_underway) (simp_all add: bailing_out_def)
  have 8: "ended cfg (case main_loop its (emit (Log LOG_INFO ''accepting connections'' [])
                 (deliver (w_early_signals w) s)) of
        Inl out \<Rightarrow> out
      | Inr s5 \<Rightarrow> main_finish cfg w s5)" if "underway cfg ?G 1 s" for s its
    by (rule step_end [OF 5 [OF 7 [OF that]] 6])
  have 9: "ended cfg (case install_sighandlers cfg w sigs s of
        Inl out \<Rightarrow> out
      | Inr s4 \<Rightarrow>
      (case main_loop its (emit (Log LOG_INFO ''accepting connections'' [])
                 (deliver (w_early_signals w) s4)) of
        Inl out \<Rightarrow> out
      | Inr s5 \<Rightarrow> main_finish cfg w s5))" if "underway cfg ?G 1 s" for s sigs its
    by (rule step_end [OF 4 [OF that] 8])
  have 10: "ended cfg (case main_privileges cfg w (- 1) (- 1) s of
        Inl out \<Rightarrow> out
      | Inr s3 \<Rightarrow>
      (case install_sighandlers cfg w sigs s3 of
        Inl out \<Rightarrow> out
      | Inr s4 \<Rightarrow>
      (case main_loop its (emit (Log LOG_INFO ''accepting connections'' [])
                 (deliver (w_early_signals w) s4)) of
        Inl out \<Rightarrow> out
      | Inr s5 \<Rightarrow> main_finish cfg w s5)))" if "underway cfg [] 1 s" for s sigs its
    by (rule step_end [OF 3 [OF that] 9])
  have 11: "ended cfg (case main_setup cfg w s of
        Inl out \<Rightarrow> out
      | Inr s2 \<Rightarrow>
      (case main_privileges cfg w (- 1) (- 1) s2 of
        Inl out \<Rightarrow> out
      | Inr s3 \<Rightarrow>
      (case install_sighandlers cfg w sigs s3 of
        Inl out \<Rightarrow> out
      | Inr s4 \<Rightarrow>
      (case main_loop its (emit (Log LOG_INFO ''accepting connections'' [])
                 (deliver (w_early_signals w) s4)) of
        Inl out \<Rightarrow> out
      | Inr s5 \<Rightarrow> main_finish cfg w s5))))" if "underway cfg [] 0 s" for s sigs its
    by (rule step_end [OF 2 [OF that] 10])
  show ?thesis
    unfolding main_def Let_def by (rule step_end [OF 1 11])
qed


subsection \<open>The change of identity\<close>

lemma exit_idcalls [simp]: "idcalls (trace (final (exit cfg r st s))) = idcalls (trace s)"
  by (simp add: exit_def run_atexit_marks)

lemma absent_from_idcalls:
  assumes "prefix (idcalls tr) [Setgroups]" and "is_idcall e" and "e \<noteq> Setgroups"
  shows "e \<notin> set tr"
proof
  assume "e \<in> set tr"
  with assms(2) have "e \<in> set (idcalls tr)" by (simp add: idcalls_def)
  moreover from assms(1) have "set (idcalls tr) \<subseteq> set [Setgroups]" by (rule set_mono_prefix)
  ultimately show False using assms(3) by auto
qed

text \<open>
  Claim C1. Whatever the target group and user are, the identity calls of the change of
  identity are, in this order: \<^verbatim>\<open>setgroups\<close> (on a platform that has the call;
  otherwise only a log line says so), \<^verbatim>\<open>setgid\<close> when a target group is set, and
  \<^verbatim>\<open>setuid\<close> when a target user is set and \<^verbatim>\<open>setgid\<close> was not needed or has succeeded: a
  failing \<^verbatim>\<open>setgid\<close> or \<^verbatim>\<open>setuid\<close> ends the process with status 1. So \<^verbatim>\<open>setuid\<close> never
  comes before \<^verbatim>\<open>setgid\<close>. In a run of \<open>main\<close> the identity calls are at most the one
  \<^verbatim>\<open>setgroups\<close>, so no change of group or user precedes the attempt to drop the groups.
\<close>

theorem privileges_in_order:
  "idcalls (trace (after (main_privileges cfg w mygid myuid s))) =
     idcalls (trace s) @
     (if HAVE_SETGROUPS cfg then [Setgroups] else []) @
     (if mygid \<noteq> - 1 then [Setgid mygid] else []) @
     (if myuid \<noteq> - 1 \<and> (mygid = - 1 \<or> fst (w_setgid w) = 0) then [Setuid myuid] else []) \<and>
   (mygid \<noteq> - 1 \<and> fst (w_setgid w) \<noteq> 0 \<longrightarrow>
      exited (main_privileges cfg w mygid myuid s) = Some 1) \<and>
   (myuid \<noteq> - 1 \<and> fst (w_setuid w) \<noteq> 0 \<and> (mygid = - 1 \<or> fst (w_setgid w) = 0) \<longrightarrow>
      exited (main_privileges cfg w mygid myuid s) = Some 1) \<and>
   prefix (idcalls (trace (final (main cfg w)))) [Setgroups]"
proof -
  have 1: "idcalls (trace (after (main_privileges cfg w mygid myuid s))) =
     idcalls (trace s) @
     (if HAVE_SETGROUPS cfg then [Setgroups] else []) @
     (if mygid \<noteq> - 1 then [Setgid mygid] else []) @
     (if myuid \<noteq> - 1 \<and> (mygid = - 1 \<or> fst (w_setgid w) = 0) then [Setuid myuid] else [])"
    by (simp add: main_privileges_def Let_def after_def)
  have 2: "mygid \<noteq> - 1 \<and> fst (w_setgid w) \<noteq> 0 \<longrightarrow>
      exited (main_privileges cfg w mygid myuid s) = Some 1"
    by (simp add: main_privileges_def Let_def exited_def)
  have 3: "myuid \<noteq> - 1 \<and> fst (w_setuid w) \<noteq> 0 \<and> (mygid = - 1 \<or> fst (w_setgid w) = 0) \<longrightarrow>
      exited (main_privileges cfg w mygid myuid s) = Some 1"
    by (auto simp add: main_privileges_def Let_def exited_def)
  have 4: "prefix (idcalls (trace (final (main cfg w)))) [Setgroups]"
    using main_ended [of cfg w] by (simp add: ended_def)
  from 1 2 3 4 show ?thesis by blast
qed

theorem privileges_in_order_witness:
  "idcalls (trace (after (main_privileges example_config example_world 100 100 serving))) =
     [Setgroups, Setgid 100, Setuid 100] \<and>
   fst (w_setgid (example_world\<lparr> w_setgid := (- 1, 1) \<rparr>)) \<noteq> 0 \<and>
   idcalls (trace (after (main_privileges example_config (example_world\<lparr> w_setgid := (- 1, 1) \<rparr>)
                           100 100 serving))) = [Setgroups, Setgid 100] \<and>
   exited (main_privileges example_config (example_world\<lparr> w_setgid := (- 1, 1) \<rparr>)
             100 100 serving) = Some 1 \<and>
   idcalls (trace (after (main_privileges example_config example_world (- 1) 100 serving))) =
     [Setgroups, Setuid 100]"
  using privileges_in_order [of example_config example_world 100 100 serving]
    privileges_in_order [of example_config "example_world\<lparr> w_setgid := (- 1, 1) \<rparr>" 100 100 serving]
    privileges_in_order [of example_config example_world "- 1" 100 serving]
  by (simp add: example_config_def example_world_def serving_def initial_def)

text \<open>
  Claim C10. \<open>main\<close> gives the change of identity the values \<^verbatim>\<open>(gid_t)-1\<close> and
  \<^verbatim>\<open>(uid_t)-1\<close> its two variables are declared with: no run of \<open>main\<close> calls \<^verbatim>\<open>setgid\<close>
  or \<^verbatim>\<open>setuid\<close>, and with these values the change of identity always returns, having made
  no identity call but \<^verbatim>\<open>setgroups\<close>.
\<close>

theorem identity_never_changed:
  "Setgid g \<notin> set (trace (final (main cfg w))) \<and>
   Setuid u \<notin> set (trace (final (main cfg w))) \<and>
   returns (main_privileges cfg w (- 1) (- 1) s) \<and>
   idcalls (trace (after (main_privileges cfg w (- 1) (- 1) s))) =
     idcalls (trace s) @ (if HAVE_SETGROUPS cfg then [Setgroups] else [])"
proof -
  have p: "prefix (idcalls (trace (final (main cfg w)))) [Setgroups]"
    using main_ended [of cfg w] by (simp add: ended_def)
  have 1: "Setgid g \<notin> set (trace (final (main cfg w)))"
    using p by (rule absent_from_idcalls) simp_all
  have 2: "Setuid u \<notin> set (trace (final (main cfg w)))"
    using p by (rule absent_from_idcalls) simp_all
  have 3: "returns (main_privileges cfg w (- 1) (- 1) s) \<and>
     idcalls (trace (after (main_privileges cfg w (- 1) (- 1) s))) =
       idcalls (trace s) @ (if HAVE_SETGROUPS cfg then [Setgroups] else [])"
    by (simp add: main_privileges_def Let_def)
  from 1 2 3 show ?thesis by blast
qed

theorem identity_never_changed_witness:
  "Setgid 0 \<notin> set (trace (final (main example_config example_world))) \<and>
   Setuid 0 \<notin> set (trace (final (main example_config example_world))) \<and>
   idcalls (trace (final (main example_config example_world))) = [Setgroups]"
proof -
  have "idcalls (trace (final (main example_config example_world))) = [Setgroups]"
    by (simp add: main_def parse_cmdline_def NSLCD_OPTIONSTRING_def nslcd_options_def
        is_option_def short_match_def optc_of_def main_setup_def write_pidfile_def
        main_privileges_def install_sighandler_def acceptconnection_def handleconnection_def
        Let_def example_config_def example_world_def example_iteration_def initial_def
        exit_def exithandler_def sprintf_pid)
  with identity_never_changed [of 0 example_config example_world 0 serving]
  show ?thesis by simp
qed

subsection \<open>Closing the listener\<close>

text \<open>
  Claim C9, as stated, fails: \<open>exithandler\<close> does not invalidate the descriptor, so run
  twice on an open listener it closes descriptor 3 twice, and the second \<^verbatim>\<open>close\<close>, failing
  with \<^verbatim>\<open>EBADF\<close>, is logged as a problem.
\<close>

theorem exithandler_twice_counterexample:
  "trace (exithandler example_config (- 1, 9) (exithandler example_config (0, 0) serving)) =
     [Close 3, Log LOG_INFO ''version %s bailing out'' [AStr ''0.1''],
      Close 3, Log LOG_WARNING ''problem closing server socket (ignored): %s'' [AErrno 9],
      Log LOG_INFO ''version %s bailing out'' [AStr ''0.1'']]"
  by (simp add: exithandler_def Let_def serving_def initial_def example_config_def)

text \<open>
  Claim C9, amended. With an invalid (negative) descriptor \<open>exithandler\<close> makes no
  \<^verbatim>\<open>close\<close> call and only logs its last line. With a valid descriptor it closes it once,
  logs a failure of \<^verbatim>\<open>close\<close> as a warning, and leaves the variable as it was. Every run of
  \<open>exithandler\<close> logs its last line once, and a run of \<open>main\<close> holds that line at most
  once: the daemon runs \<open>exithandler\<close> at most once, so the listener is not closed twice.
\<close>

theorem exithandler_at_most_once:
  "(nslcd_serversocket s < 0 \<longrightarrow>
      trace (exithandler cfg r s) = trace s @ [bailing_out cfg]) \<and>
   (0 \<le> nslcd_serversocket s \<longrightarrow>
      trace (exithandler cfg r s) =
        trace s @ Close (nslcd_serversocket s) #
          (if fst r \<noteq> 0
           then [Log LOG_WARNING ''problem closing server socket (ignored): %s'' [AErrno (snd r)]]
           else []) @ [bailing_out cfg]) \<and>
   nslcd_serversocket (exithandler cfg r s) = nslcd_serversocket s \<and>
   bails cfg (trace (exithandler cfg r s)) = Suc (bails cfg (trace s)) \<and>
   bails cfg (trace (final (main cfg w))) \<le> 1"
proof -
  have 1: "nslcd_serversocket s < 0 \<longrightarrow>
      trace (exithandler cfg r s) = trace s @ [bailing_out cfg]"
    by (simp add: exithandler_def Let_def bailing_out_def)
  have 2: "0 \<le> nslcd_serversocket s \<longrightarrow>
      trace (exithandler cfg r s) =
        trace s @ Close (nslcd_serversocket s) #
          (if fst r \<noteq> 0
           then [Log LOG_WARNING ''problem closing server socket (ignored): %s'' [AErrno (snd r)]]
           else []) @ [bailing_out cfg]"
    by (simp add: exithandler_def Let_def bailing_out_def)
  have 3: "nslcd_serversocket (exithandler cfg r s) = nslcd_serversocket s" by simp
  have 4: "bails cfg (trace (exithandler cfg r s)) = Suc (bails cfg (trace s))"
    by (rule exithandler_marks)
  have 5: "bails cfg (trace (final (main cfg w))) \<le> 1"
    using main_ended [of cfg w] by (simp add: ended_def)
  from 1 2 3 4 5 show ?thesis by blast
qed

theorem exithandler_at_most_once_witness:
  "nslcd_serversocket initial < 0 \<and>
   trace (exithandler example_config (0, 0) initial) =
     [Log LOG_INFO ''version %s bailing out'' [AStr ''0.1'']] \<and>
   0 \<le> nslcd_serversocket serving \<and>
   trace (exithandler example_config (0, 0) serving) =
     [Close 3, Log LOG_INFO ''version %s bailing out'' [AStr ''0.1'']] \<and>
   nslcd_serversocket (exithandler example_config (0, 0) serving) = 3 \<and>
   bails example_config (trace (final (main example_config example_world))) \<le> 1"
  using exithandler_at_most_once [of initial example_config "(0, 0)" example_world]
    exithandler_at_most_once [of serving example_config "(0, 0)" example_world]
  by (simp add: serving_def initial_def bailing_out_def example_config_def)

subsection \<open>The command line\<close>

lemma debug_flag_scan:
  assumes "debug_flag a"
  shows "getopt_long posix NSLCD_OPTIONSTRING nslcd_options (a # rest) =
           Returned CHR ''d'' # getopt_long posix NSLCD_OPTIONSTRING nslcd_options rest"
    and "operands posix (a # rest) = operands posix rest"
    and "is_option a"
  using assms
  by (auto simp add: debug_flag_def is_option_def short_match_def long_match_def
      NSLCD_OPTIONSTRING_def nslcd_options_def Let_def)

lemma help_flag_scan:
  assumes "help_flag a"
  shows "getopt_long posix NSLCD_OPTIONSTRING nslcd_options (a # rest) =
           Returned CHR ''h'' # getopt_long posix NSLCD_OPTIONSTRING nslcd_options rest"
  using assms
  by (auto simp add: help_flag_def is_option_def short_match_def long_match_def
      NSLCD_OPTIONSTRING_def nslcd_options_def Let_def)

lemma version_flag_scan:
  assumes "version_flag a"
  shows "getopt_long posix NSLCD_OPTIONSTRING nslcd_options (a # rest) =
           Returned CHR ''V'' # getopt_long posix NSLCD_OPTIONSTRING nslcd_options rest"
  using assms
  by (auto simp add: version_flag_def is_option_def short_match_def long_match_def
      NSLCD_OPTIONSTRING_def nslcd_options_def Let_def)

lemma debug_prefix_scan:
  assumes "\<forall>a \<in> set ds. debug_flag a"
  shows "getopt_long posix NSLCD_OPTIONSTRING nslcd_options (ds @ rest) =
           replicate (length ds) (Returned CHR ''d'') @
           getopt_long posix NSLCD_OPTIONSTRING nslcd_options rest"
    and "operands posix (ds @ rest) = operands posix rest"
  using assms
  by (induction ds) (simp_all add: debug_flag_scan del: getopt_long.simps operands.simps)

lemma parse_options_debug:
  "parse_options cfg r prog (replicate n (Returned CHR ''d'') @ rs) s =
     parse_options cfg r prog rs (debugging_on n s)"
  by (induction n arbitrary: s) (simp_all add: optc_of_def Let_def)

lemma debugging_on_fields:
  "trace (debugging_on n s) = trace s @ replicate n (LogSetDefaultLevel LOG_DEBUG)"
  "nslcd_debugging (debugging_on n s) = (if n = 0 then nslcd_debugging s else 1)"
  by (induction n arbitrary: s; simp add: replicate_append_same)+

lemma parse_cmdline_debug:
  assumes "\<forall>a \<in> set ds. debug_flag a"
  shows "parse_cmdline cfg r posix prog ds s = Inr (debugging_on (length ds) s)"
  using debug_prefix_scan [OF assms, of posix "[]"] parse_options_debug [of cfg r prog "length ds" "[]" s]
  by (simp add: parse_cmdline_def)

lemma unknown_option_scan:
  assumes "unknown_option a"
  shows "\<exists>rs. getopt_long posix NSLCD_OPTIONSTRING nslcd_options (a # rest) = Diagnosed a # rs"
proof (cases "take 2 a = ''--''")
  case True
  with assms have none: "filter (\<lambda>p. prefix (long_name a) (name p)) nslcd_options = []"
    by (auto simp add: unknown_option_def filter_empty_conv)
  then have "filter (\<lambda>p. name p = long_name a) nslcd_options = []"
    by (auto simp add: filter_empty_conv)
  with none have "long_match nslcd_options a = Diagnosed a"
    by (simp add: long_match_def Let_def long_name_def)
  with True assms show ?thesis by (simp add: unknown_option_def)
next
  case False
  from assms have o: "is_option a" and n: "hd (tl a) \<notin> set NSLCD_OPTIONSTRING"
    using False by (simp_all add: unknown_option_def)
  from o obtain c cs where a: "a = CHR ''-'' # c # cs"
    by (cases a; cases "tl a") (auto simp add: is_option_def)
  with n have "short_match NSLCD_OPTIONSTRING a c = Diagnosed a"
    by (simp add: short_match_def)
  with False o assms a show ?thesis by (simp add: unknown_option_def)
qed

lemma mixed_scan:
  assumes "\<forall>x \<in> set xs. debug_flag x \<or> \<not> is_option x"
  shows "getopt_long False NSLCD_OPTIONSTRING nslcd_options xs =
           replicate (length (filter debug_flag xs)) (Returned CHR ''d'')"
    and "operands False xs = filter (\<lambda>x. \<not> is_option x) xs"
  using assms
proof (induction xs)
  case Nil
  {
    case 1 show ?case by simp
  next
    case 2 show ?case by simp
  }
next
  case (Cons x xs)
  {
    case 1
    show ?case
    proof (cases "debug_flag x")
      case True
      with Cons.IH(1) 1 show ?thesis by (simp add: debug_flag_scan del: getopt_long.simps)
    next
      case False
      with 1 have n: "\<not> is_option x" by simp
      then have "x \<noteq> ''--''" "take 2 x \<noteq> ''--''"
        by (cases x; cases "tl x"; auto simp add: is_option_def)+
      with n False Cons.IH(1) 1 show ?thesis by simp
    qed
  next
    case 2
    show ?case
    proof (cases "debug_flag x")
      case True
      with Cons.IH(2) 2 show ?thesis by (simp add: debug_flag_scan del: operands.simps)
    next
      case False
      with 2 have n: "\<not> is_option x" by simp
      then have "x \<noteq> ''--''" by (auto simp add: is_option_def)
      with n False Cons.IH(2) 2 show ?thesis by simp
    qed
  }
qed


lemma debugging_on_add: "debugging_on (n + m) s = debugging_on m (debugging_on n s)"
  by (induction n arbitrary: s) simp_all

lemma non_option_scan:
  assumes "\<not> is_option a"
  shows "getopt_long posix NSLCD_OPTIONSTRING nslcd_options (a # rest) =
           (if posix then [] else getopt_long posix NSLCD_OPTIONSTRING nslcd_options rest)"
    and "operands posix (a # rest) = a # (if posix then rest else operands posix rest)"
proof -
  from assms have "a \<noteq> ''--''" "take 2 a \<noteq> ''--''"
    by (cases a; cases "tl a"; auto simp add: is_option_def)+
  with assms show
    "getopt_long posix NSLCD_OPTIONSTRING nslcd_options (a # rest) =
       (if posix then [] else getopt_long posix NSLCD_OPTIONSTRING nslcd_options rest)"
    "operands posix (a # rest) = a # (if posix then rest else operands posix rest)"
    by simp_all
qed

lemma usage_hint_line: "count_list usage_hint NL = 1 \<and> last usage_hint = NL"
  by (simp add: usage_hint_def NL_def)

text \<open>
  Claim C6, amended. The options are \<^verbatim>\<open>-d\<close>/\<^verbatim>\<open>--debug\<close>, \<^verbatim>\<open>-h\<close>/\<^verbatim>\<open>--help\<close> and
  \<^verbatim>\<open>-V\<close>/\<^verbatim>\<open>--version\<close>, handled in the order of the command line (nothing is said here
  of \<^verbatim>\<open>-f\<close>/\<^verbatim>\<open>--config\<close>). Debug options alone switch debugging on and parsing
  returns. Behind any number of debug options, the first help or version option prints
  the usage or the version to standard output and exits with status 0, whatever
  follows; the first unknown option gets the library's diagnostic and the usage hint on
  standard error and exits with status 1, whatever follows; a stray argument followed
  only by debug options and further stray arguments gets the \<^verbatim>\<open>unrecognized option\<close> line
  and the usage hint on standard error and exits with status 1. The hint is one line.
\<close>

theorem parse_cmdline_options:
  assumes "\<forall>a \<in> set ds. debug_flag a"
  shows
    "parse_cmdline cfg r posix prog ds s = Inr (debugging_on (length ds) s) \<and>
     trace (debugging_on (length ds) s) =
       trace s @ replicate (length ds) (LogSetDefaultLevel LOG_DEBUG) \<and>
     nslcd_debugging (debugging_on (length ds) s) = (if ds = [] then nslcd_debugging s else 1) \<and>
     (help_flag a \<longrightarrow>
        parse_cmdline cfg r posix prog (ds @ a # rest) s =
          Inl (exit cfg r 0 (display_usage cfg Stdout prog (debugging_on (length ds) s)))) \<and>
     (version_flag a \<longrightarrow>
        parse_cmdline cfg r posix prog (ds @ a # rest) s =
          Inl (exit cfg r 0 (display_version cfg Stdout (debugging_on (length ds) s)))) \<and>
     (unknown_option a \<and> \<not> config_option a \<longrightarrow>
        parse_cmdline cfg r posix prog (ds @ a # rest) s =
          Inl (exit cfg r 1
                 (emit (Fprintf Stderr usage_hint [AStr prog])
                    (emit (GetoptDiagnostic a) (debugging_on (length ds) s))))) \<and>
     (\<not> is_option a \<and> (\<forall>x \<in> set rest. debug_flag x \<or> \<not> is_option x) \<longrightarrow>
        parse_cmdline cfg r posix prog (ds @ a # rest) s =
          Inl (exit cfg r 1
                 (emit (Fprintf Stderr usage_hint [AStr prog])
                    (emit (Fprintf Stderr unrecognized [AStr prog, AStr a])
                       (debugging_on
                          (length ds + (if posix then 0 else length (filter debug_flag rest)))
                          s))))) \<and>
     count_list usage_hint NL = 1 \<and> last usage_hint = NL"
proof -
  let ?scan = "getopt_long posix NSLCD_OPTIONSTRING nslcd_options"
  let ?n = "length ds"
  have pre: "?scan (ds @ xs) = replicate ?n (Returned CHR ''d'') @ ?scan xs" for xs
    using assms by (rule debug_prefix_scan)
  have ops: "operands posix (ds @ xs) = operands posix xs" for xs
    using assms by (rule debug_prefix_scan)
  have 1: "parse_cmdline cfg r posix prog ds s = Inr (debugging_on ?n s)"
    using assms by (rule parse_cmdline_debug)
  have 2: "trace (debugging_on ?n s) = trace s @ replicate ?n (LogSetDefaultLevel LOG_DEBUG)"
    by (rule debugging_on_fields)
  have 3: "nslcd_debugging (debugging_on ?n s) = (if ds = [] then nslcd_debugging s else 1)"
    by (simp add: debugging_on_fields)
  have 4: "parse_cmdline cfg r posix prog (ds @ a # rest) s =
          Inl (exit cfg r 0 (display_usage cfg Stdout prog (debugging_on ?n s)))"
    if "help_flag a"
    by (simp add: parse_cmdline_def pre help_flag_scan [OF that] parse_options_debug
        optc_of_def Let_def del: getopt_long.simps)
  have 5: "parse_cmdline cfg r posix prog (ds @ a # rest) s =
          Inl (exit cfg r 0 (display_version cfg Stdout (debugging_on ?n s)))"
    if "version_flag a"
    by (simp add: parse_cmdline_def pre version_flag_scan [OF that] parse_options_debug
        optc_of_def Let_def del: getopt_long.simps)
  have 6: "parse_cmdline cfg r posix prog (ds @ a # rest) s =
          Inl (exit cfg r 1
                 (emit (Fprintf Stderr usage_hint [AStr prog])
                    (emit (GetoptDiagnostic a) (debugging_on ?n s))))"
    if "unknown_option a"
  proof -
    from unknown_option_scan [OF that] obtain rs where "?scan (a # rest) = Diagnosed a # rs"
      by blast
    then show ?thesis
      by (simp add: parse_cmdline_def pre parse_options_debug optc_of_def Let_def
          del: getopt_long.simps)
  qed
  have 7: "parse_cmdline cfg r posix prog (ds @ a # rest) s =
          Inl (exit cfg r 1
                 (emit (Fprintf Stderr usage_hint [AStr prog])
                    (emit (Fprintf Stderr unrecognized [AStr prog, AStr a])
                       (debugging_on
                          (?n + (if posix then 0 else length (filter debug_flag rest))) s))))"
    if n: "\<not> is_option a" and m: "\<forall>x \<in> set rest. debug_flag x \<or> \<not> is_option x"
  proof -
    let ?m = "length (filter debug_flag rest)"
    have sc: "?scan (ds @ a # rest) =
                replicate ?n (Returned CHR ''d'') @ (if posix then [] else ?scan rest)"
      by (simp only: pre non_option_scan(1) [OF n])
    have op: "operands posix (ds @ a # rest) =
                a # (if posix then rest else operands posix rest)"
      by (simp only: ops non_option_scan(2) [OF n])
    have gnu: "getopt_long False NSLCD_OPTIONSTRING nslcd_options rest =
            replicate ?m (Returned CHR ''d'')"
      using m by (rule mixed_scan)
    show ?thesis
    proof (cases posix)
      case True
      then show ?thesis
        using sc op parse_options_debug [of cfg r prog ?n "[]" s]
        by (simp add: parse_cmdline_def del: getopt_long.simps operands.simps)
    next
      case False
      then show ?thesis
        using sc op gnu parse_options_debug [of cfg r prog ?n "replicate ?m (Returned CHR ''d'')" s]
          parse_options_debug [of cfg r prog ?m "[]" "debugging_on ?n s"]
        by (simp add: parse_cmdline_def debugging_on_add del: getopt_long.simps operands.simps)
    qed
  qed
  from 1 2 3 4 5 6 7 usage_hint_line show ?thesis by blast
qed

theorem parse_cmdline_options_witness:
  "debug_flag ''-d'' \<and> help_flag ''--help'' \<and> version_flag ''-V'' \<and>
   unknown_option ''--bogus'' \<and> \<not> config_option ''--bogus'' \<and> \<not> is_option ''stray'' \<and>
   nslcd_debugging (after (parse_cmdline example_config (0, 0) False ''nslcd'' [''-d''] initial)) = 1 \<and>
   exited (parse_cmdline example_config (0, 0) False ''nslcd'' [''-d'', ''--help'', ''x''] initial) =
     Some 0 \<and>
   exited (parse_cmdline example_config (0, 0) False ''nslcd'' [''-d'', ''-V'', ''x''] initial) =
     Some 0 \<and>
   trace (after (parse_cmdline example_config (0, 0) False ''nslcd'' [''-d'', ''--bogus'', ''x''] initial)) =
     [LogSetDefaultLevel LOG_DEBUG, GetoptDiagnostic ''--bogus'',
      Fprintf Stderr usage_hint [AStr ''nslcd'']] \<and>
   exited (parse_cmdline example_config (0, 0) False ''nslcd'' [''-d'', ''--bogus'', ''x''] initial) =
     Some 1 \<and>
   trace (after (parse_cmdline example_config (0, 0) False ''nslcd'' [''-d'', ''stray'', ''-d''] initial)) =
     [LogSetDefaultLevel LOG_DEBUG, LogSetDefaultLevel LOG_DEBUG,
      Fprintf Stderr unrecognized [AStr ''nslcd'', AStr ''stray''],
      Fprintf Stderr usage_hint [AStr ''nslcd'']] \<and>
   exited (parse_cmdline example_config (0, 0) False ''nslcd'' [''-d'', ''stray'', ''-d''] initial) =
     Some 1"
proof -
  have d: "\<forall>a \<in> set [''-d'']. debug_flag a" by (simp add: debug_flag_def)
  have f: "debug_flag ''-d'' \<and> help_flag ''--help'' \<and> version_flag ''-V'' \<and>
     unknown_option ''--bogus'' \<and> \<not> config_option ''--bogus'' \<and> \<not> is_option ''stray'' \<and>
     filter debug_flag [''-d''] = [''-d'']"
    by (simp add: debug_flag_def help_flag_def version_flag_def unknown_option_def
        config_option_def is_option_def long_name_def nslcd_options_def)
  note t = parse_cmdline_options [OF d, where cfg = example_config and r = "(0, 0)"
      and posix = False and prog = "''nslcd''" and s = initial]
  show ?thesis
    using f t [where a = "''--help''" and rest = "[''x'']"]
      t [where a = "''-V''" and rest = "[''x'']"]
      t [where a = "''--bogus''" and rest = "[''x'']"]
      t [where a = "''stray''" and rest = "[''-d'']"]
    by (simp add: exit_def initial_def display_usage_def display_version_def Let_def)
qed

text \<open>
  Claim C6, as stated, fails. \<^verbatim>\<open>--help --bogus\<close> holds an unknown option and
  \<^verbatim>\<open>stray --version\<close> a stray argument, yet both print to standard output only and exit
  with status 0; and \<^verbatim>\<open>-h\<close> and \<^verbatim>\<open>-V\<close>, which the claim does not list, are options too.
\<close>

theorem parse_cmdline_counterexample:
  "exited (parse_cmdline example_config (0, 0) False ''nslcd'' [''--help'', ''--bogus''] initial) =
     Some 0 \<and>
   trace (after (parse_cmdline example_config (0, 0) False ''nslcd'' [''--help'', ''--bogus''] initial)) =
     trace (display_usage example_config Stdout ''nslcd'' initial) \<and>
   exited (parse_cmdline example_config (0, 0) False ''nslcd'' [''stray'', ''--version''] initial) =
     Some 0 \<and>
   trace (after (parse_cmdline example_config (0, 0) False ''nslcd'' [''stray'', ''--version''] initial)) =
     trace (display_version example_config Stdout initial) \<and>
   exited (parse_cmdline example_config (0, 0) False ''nslcd'' [''-h''] initial) = Some 0 \<and>
   exited (parse_cmdline example_config (0, 0) False ''nslcd'' [''-V''] initial) = Some 0"
  by (simp add: parse_cmdline_def NSLCD_OPTIONSTRING_def nslcd_options_def is_option_def
      short_match_def long_match_def optc_of_def Let_def exit_def initial_def
      display_usage_def display_version_def)

end
